theory Spec2Isabelle
  imports Main "HOL-Library.Char_ord" "HOL-Library.List_Lexorder"
begin

section \<open>Python values, strings and exceptions\<close>

text \<open>
  Strings are lists of 8-bit characters: a Python \<^verbatim>\<open>str\<close> is read as its UTF-8 bytes
  (byte-wise lexicographic order on UTF-8 agrees with Python's code-point order, which
  is what \<^verbatim>\<open>list.sort\<close> uses on names).

  \<open>pyval\<close> is the part of Python's value universe that attribute values and rule
  conditions range over: \<^verbatim>\<open>None\<close>, the sentinel \<^verbatim>\<open>UNKNOWN\<close> of \<^verbatim>\<open>dds/types.py\<close>,
  booleans, integers, strings, and lists of strings (a condition may return the list of
  its violation messages).
\<close>

datatype pyval = VNone | VUnknown | VBool bool | VInt int | VStr string | VList "string list"

text \<open>
  Python truthiness. \<^verbatim>\<open>_UnknownType.__bool__\<close> returns \<^verbatim>\<open>False\<close>.
\<close>

fun truthy :: "pyval \<Rightarrow> bool" where
  "truthy VNone = False"
| "truthy VUnknown = False"
| "truthy (VBool b) = b"
| "truthy (VInt i) = (i \<noteq> 0)"
| "truthy (VStr s) = (s \<noteq> [])"
| "truthy (VList xs) = (xs \<noteq> [])"

text \<open>
  A call of user code either returns a value or raises an exception derived from
  \<^verbatim>\<open>Exception\<close>; \<open>Raises s\<close> carries \<^verbatim>\<open>str(e)\<close>. These are the raises that the handlers
  of \<^verbatim>\<open>evaluate_rules\<close> (\<^verbatim>\<open>except Exception\<close>) catch. A raise outside \<^verbatim>\<open>Exception\<close>
  (\<^verbatim>\<open>SystemExit\<close>, \<^verbatim>\<open>KeyboardInterrupt\<close>) and an exception whose \<^verbatim>\<open>__str__\<close> itself raises
  are not values of this type: no statement below is about them.
\<close>

datatype 'a outcome = Returns 'a | Raises string

definition squote :: string where
  "squote = [CHR 0x27]"

text \<open>The em dash (U+2014) in UTF-8.\<close>

definition emdash :: string where
  "emdash = [CHR 0xE2, CHR 0x80, CHR 0x94]"

text \<open>Decimal rendering of a natural number, as \<^verbatim>\<open>str(n)\<close> does.\<close>

fun str_of_nat :: "nat \<Rightarrow> string" where
  "str_of_nat n =
     (if n < 10 then [''0123456789'' ! n]
      else str_of_nat (n div 10) @ [''0123456789'' ! (n mod 10)])"

section \<open>Core types (\<^verbatim>\<open>dds/types.py\<close>)\<close>

datatype Optionality = REQUIRED | OPTIONAL | UNKNOWN_ADMISSIBLE

fun optionality_value :: "Optionality \<Rightarrow> string" where
  "optionality_value REQUIRED = ''required''"
| "optionality_value OPTIONAL = ''optional''"
| "optionality_value UNKNOWN_ADMISSIBLE = ''unknown_admissible''"

text \<open>The type tags an attribute may carry (\<^verbatim>\<open>value_type: type | None\<close>).\<close>

datatype py_type = PyStr | PyInt | PyFloat | PyBool

datatype EntityType = EntityType (entity_name: string)

datatype Attribute =
  Attribute (attr_name: string) (attr_entity: EntityType)
    (value_type: "py_type option") (optionality: Optionality)

datatype OperationType = OperationType (operation_name: string)

datatype Relation =
  Relation (relation_name: string) (relation_source: EntityType) (relation_target: EntityType)

text \<open>
  \<^verbatim>\<open>EntityType | Attribute | OperationType | Relation\<close>: the dataclass-generated
  \<^verbatim>\<open>__eq__\<close> compares the class and then the fields, which is equality of this datatype.
\<close>

datatype element =
  EEntity EntityType | EAttribute Attribute | EOperation OperationType | ERelation Relation

definition repr_EntityType :: "EntityType \<Rightarrow> string" where
  "repr_EntityType e = ''Entity('' @ entity_name e @ '')''"

definition repr_Attribute :: "Attribute \<Rightarrow> string" where
  "repr_Attribute a =
     (let opt = (if optionality a \<noteq> REQUIRED
                 then '', '' @ optionality_value (optionality a) else '''')
      in ''Attr('' @ entity_name (attr_entity a) @ ''.'' @ attr_name a @ opt @ '')'')"

definition repr_OperationType :: "OperationType \<Rightarrow> string" where
  "repr_OperationType p = ''Op('' @ operation_name p @ '')''"

definition repr_Relation :: "Relation \<Rightarrow> string" where
  "repr_Relation r =
     ''Rel('' @ entity_name (relation_source r) @ '' --'' @ relation_name r @ ''--> ''
       @ entity_name (relation_target r) @ '')''"

fun repr_element :: "element \<Rightarrow> string" where
  "repr_element (EEntity e) = repr_EntityType e"
| "repr_element (EAttribute a) = repr_Attribute a"
| "repr_element (EOperation p) = repr_OperationType p"
| "repr_element (ERelation r) = repr_Relation r"

datatype ImportDecl = ImportDecl (target_name: string)

section \<open>Semantic worlds (\<^verbatim>\<open>dds/validation.py\<close>)\<close>

record SemanticElement =
  entity_type :: EntityType
  identity :: string
  attribute_values :: "string \<rightharpoonup> pyval"
  provenance :: string

record SemanticRelation =
  relation :: Relation
  source_id :: string
  target_id :: string
  rel_provenance :: string

record SemanticWorld =
  elements :: "SemanticElement list"
  relations :: "SemanticRelation list"

definition get_elements_by_type :: "SemanticWorld \<Rightarrow> EntityType \<Rightarrow> SemanticElement list" where
  "get_elements_by_type w t = filter (\<lambda>e. entity_type e = t) (elements w)"

definition get_element_by_id :: "SemanticWorld \<Rightarrow> string \<Rightarrow> SemanticElement option" where
  "get_element_by_id w i = find (\<lambda>e. identity e = i) (elements w)"

section \<open>Normative rules and Self-QC (\<^verbatim>\<open>dds/normative.py\<close>)\<close>

type_synonym condition = "SemanticWorld \<Rightarrow> pyval outcome"

record NormativeTarget =
  element :: element
  condition :: "condition option"
  description :: string

datatype NormativeOp = MUST | MUST_NOT | SHOULD | SHOULD_NOT | MAY

fun op_value :: "NormativeOp \<Rightarrow> string" where
  "op_value MUST = ''MUST''"
| "op_value MUST_NOT = ''MUST_NOT''"
| "op_value SHOULD = ''SHOULD''"
| "op_value SHOULD_NOT = ''SHOULD_NOT''"
| "op_value MAY = ''MAY''"

text \<open>
  A rule is a Python object: \<open>rid\<close> is its identity, and \<open>override_ref\<close> holds the
  identity of the rule it refers to, so that \<^verbatim>\<open>a.override_ref is b\<close> is
  \<open>override_ref a = Some (rid b)\<close>.
\<close>

record NormativeRule =
  rid :: nat
  operator :: NormativeOp
  target :: NormativeTarget
  override_ref :: "nat option"

definition repr_NormativeRule :: "NormativeRule \<Rightarrow> string" where
  "repr_NormativeRule r =
     (let override = (if override_ref r \<noteq> None then '' [OVERRIDE]'' else '''')
      in op_value (operator r) @ ''('' @ repr_element (element (target r)) @ '')'' @ override)"

datatype FindingType = CONFLICT | EXCEPTION | OVERRIDE | OVERLAP | AMBIGUITY | NO_DEFAULT

datatype Severity = ERROR | WARNING | INFO

record InteractionDiagnostic =
  severity :: Severity
  finding_type :: FindingType
  rule_a :: NormativeRule
  rule_b :: NormativeRule
  message :: string

definition COMPATIBLE_PAIRS :: "NormativeOp set set" where
  "COMPATIBLE_PAIRS =
     {{MUST, MUST}, {MUST, SHOULD}, {MUST, MAY}, {SHOULD, SHOULD}, {SHOULD, MAY}, {MAY, MAY},
      {MUST_NOT, MUST_NOT}, {MUST_NOT, SHOULD_NOT}, {SHOULD_NOT, SHOULD_NOT}}"

definition CONFLICTING_PAIRS :: "(NormativeOp set \<times> string) list" where
  "CONFLICTING_PAIRS =
     [({MUST, MUST_NOT}, ''Requiring and prohibiting the same element''),
      ({MUST, SHOULD_NOT}, ''Obligating a discouraged element''),
      ({SHOULD, MUST_NOT}, ''Recommending a prohibited element''),
      ({SHOULD, SHOULD_NOT}, ''Recommending and discouraging the same element''),
      ({MAY, MUST_NOT}, ''Permitting a prohibited element''),
      ({MAY, SHOULD_NOT}, ''Permitting a discouraged element'')]"

definition is_compatible_pair :: "NormativeOp \<Rightarrow> NormativeOp \<Rightarrow> bool" where
  "is_compatible_pair a b = ({a, b} \<in> COMPATIBLE_PAIRS \<or> a = b)"

definition same_target :: "NormativeRule \<Rightarrow> NormativeRule \<Rightarrow> bool" where
  "same_target a b = (element (target a) = element (target b))"

text \<open>\<^verbatim>\<open>a.override_ref is not None and a.override_ref is b\<close>\<close>

definition overrides :: "NormativeRule \<Rightarrow> NormativeRule \<Rightarrow> bool" where
  "overrides a b = (override_ref a \<noteq> None \<and> override_ref a = Some (rid b))"

definition check_interaction ::
  "NormativeRule \<Rightarrow> NormativeRule \<Rightarrow> InteractionDiagnostic option" where
  "check_interaction a b =
     (if \<not> same_target a b then None
      else
        let ops = {operator a, operator b};
            target_repr = repr_element (element (target a))
        in
        if is_compatible_pair (operator a) (operator b) then
          Some \<lparr>severity = INFO, finding_type = OVERLAP, rule_a = a, rule_b = b,
                message = ''Overlap: '' @ op_value (operator a) @ '' and ''
                  @ op_value (operator b) @ '' on same target '' @ target_repr\<rparr>
        else
          let conflict_reason =
                (case map_of CONFLICTING_PAIRS ops of
                   Some s \<Rightarrow> s | None \<Rightarrow> ''Conflicting modalities'');
              a_conditional = (condition (target a) \<noteq> None);
              b_conditional = (condition (target b) \<noteq> None)
          in
          if a_conditional \<noteq> b_conditional then
            let specific = (if a_conditional then a else b);
                general = (if a_conditional then b else a)
            in Some \<lparr>severity = INFO, finding_type = EXCEPTION,
                     rule_a = specific, rule_b = general,
                     message = ''Exception (lex specialis): '' @ op_value (operator specific)
                       @ '' conditionally excepts '' @ op_value (operator general)
                       @ '' on '' @ target_repr\<rparr>
          else if a_conditional \<and> b_conditional then
            (if overrides a b \<or> overrides b a then
               Some \<lparr>severity = INFO, finding_type = OVERRIDE, rule_a = a, rule_b = b,
                     message = ''Override: intentional replacement on '' @ target_repr\<rparr>
             else
               Some \<lparr>severity = WARNING, finding_type = AMBIGUITY, rule_a = a, rule_b = b,
                     message = ''Ambiguity: '' @ op_value (operator a) @ '' and ''
                       @ op_value (operator b) @ '' on '' @ target_repr @ '' '' @ emdash
                       @ '' condition relationship not declared''\<rparr>)
          else if overrides a b \<or> overrides b a then
            Some \<lparr>severity = INFO, finding_type = OVERRIDE, rule_a = a, rule_b = b,
                  message = ''Override: intentional replacement on '' @ target_repr\<rparr>
          else
            Some \<lparr>severity = ERROR, finding_type = CONFLICT, rule_a = a, rule_b = b,
                  message = ''Conflict: '' @ conflict_reason @ '' on '' @ target_repr\<rparr>)"

text \<open>
  The two nested index loops \<^verbatim>\<open>for i in range(n): for j in range(i + 1, n)\<close>, appending
  every finding that is not \<^verbatim>\<open>None\<close>.
\<close>

definition check_all_interactions :: "NormativeRule list \<Rightarrow> InteractionDiagnostic list" where
  "check_all_interactions rules =
     concat (map (\<lambda>i.
       concat (map (\<lambda>j.
         (case check_interaction (rules ! i) (rules ! j) of
            None \<Rightarrow> [] | Some diag \<Rightarrow> [diag]))
         [i + 1 ..< length rules]))
       [0 ..< length rules])"

section \<open>Domain languages (\<^verbatim>\<open>dds/domain_language.py\<close>)\<close>

record Constraint =
  constraint_name :: string
  constraint_description :: string
  predicate :: condition
  references :: "element list"

text \<open>
  Python sets (\<open>entities\<close>, \<open>operations\<close>, \<open>lang_imports\<close>, \<open>lang_relations\<close>) are
  lists read as sets; for \<open>lang_imports\<close>, which \<^verbatim>\<open>check_closure\<close> iterates over, the
  list order is the iteration order of the set. The dict \<open>attributes\<close> is an association
  list in insertion order.
\<close>

record DomainLanguage =
  lang_name :: string
  entities :: "EntityType list"
  attributes :: "(EntityType \<times> Attribute list) list"
  operations :: "OperationType list"
  normative_rules :: "NormativeRule list"
  constraints :: "Constraint list"
  lang_imports :: "ImportDecl list"
  lang_relations :: "Relation list"

definition vocab :: "DomainLanguage \<Rightarrow> element set" where
  "vocab l =
     EEntity ` set (entities l)
     \<union> EAttribute ` (\<Union>attrs \<in> set (map snd (attributes l)). set attrs)
     \<union> EOperation ` set (operations l)"

text \<open>
  \<^verbatim>\<open>check_closure(resolved_imports=None)\<close>: \<open>None\<close> is the default argument, \<open>Some m\<close> a
  dict from names to languages.
\<close>

definition check_closure ::
  "DomainLanguage \<Rightarrow> (string \<rightharpoonup> DomainLanguage) option \<Rightarrow> string list" where
  "check_closure l resolved_imports =
     (let local_vocab = vocab l;
          (errors, extended_vocab) =
            (case resolved_imports of
               None \<Rightarrow> ([], local_vocab)
             | Some resolved \<Rightarrow>
                 fold (\<lambda>imp (errors, extended_vocab).
                    (case resolved (target_name imp) of
                       None \<Rightarrow>
                         (errors @ [''Unresolved import: '' @ target_name imp], extended_vocab)
                     | Some imported \<Rightarrow> (errors, extended_vocab \<union> vocab imported)))
                   (lang_imports l) ([], local_vocab));
          all_elements = extended_vocab \<union> ERelation ` set (lang_relations l)
      in fold (\<lambda>rule errors.
           if element (target rule) \<notin> all_elements then
             errors @ [''Normative rule '' @ repr_NormativeRule rule
                        @ '' references unknown element: ''
                        @ repr_element (element (target rule))]
           else errors)
         (normative_rules l) errors)"

section \<open>The domain language graph (\<^verbatim>\<open>dds/domain_language_graph.py\<close>)\<close>

datatype EdgeLabel = IMPORTS

record DomLGEdge =
  edge_source :: string
  edge_target :: string
  label :: EdgeLabel

text \<open>
  \<open>languages\<close> is the dict from names to languages in insertion order; its keys are
  distinct.
\<close>

record DomainLanguageGraph =
  languages :: "(string \<times> DomainLanguage) list"
  edges :: "DomLGEdge list"

definition composed_vocab :: "DomainLanguageGraph \<Rightarrow> element set" where
  "composed_vocab g = (\<Union>lang \<in> set (map snd (languages g)). vocab lang)"

definition composed_relations :: "DomainLanguageGraph \<Rightarrow> Relation set" where
  "composed_relations g = (\<Union>lang \<in> set (map snd (languages g)). set (lang_relations lang))"

text \<open>
  Exceptions that Python's containers raise inside the graph algorithms: \<^verbatim>\<open>KeyError\<close> with
  the missing key, \<^verbatim>\<open>ValueError\<close> of \<^verbatim>\<open>list.index\<close> with the value that is not in the list,
  \<^verbatim>\<open>IndexError\<close> of \<^verbatim>\<open>pop\<close> on an empty list.
\<close>

datatype error = KeyError string | ValueError string | IndexError

text \<open>
  \<^verbatim>\<open>adj: defaultdict(list)\<close>, filled by \<^verbatim>\<open>adj[edge.source].append(edge.target)\<close>, and
  \<^verbatim>\<open>adj.get(node, [])\<close>.
\<close>

definition build_adj :: "DomLGEdge list \<Rightarrow> (string \<rightharpoonup> string list)" where
  "build_adj es =
     fold (\<lambda>edge adj.
        adj(edge_source edge \<mapsto>
          (case adj (edge_source edge) of None \<Rightarrow> [] | Some ts \<Rightarrow> ts) @ [edge_target edge]))
       es Map.empty"

definition adj_get :: "(string \<rightharpoonup> string list) \<Rightarrow> string \<Rightarrow> string list" where
  "adj_get adj node = (case adj node of None \<Rightarrow> [] | Some ts \<Rightarrow> ts)"

datatype color = WHITE | GRAY | BLACK

text \<open>The variables \<^verbatim>\<open>color\<close>, \<^verbatim>\<open>path\<close> and \<^verbatim>\<open>cycles\<close> that the nested \<^verbatim>\<open>dfs\<close> closes over.\<close>

record dfs_state =
  color :: "string \<rightharpoonup> color"
  path :: "string list"
  cycles :: "string list list"

text \<open>
  \<open>dfs_from adj node nbrs st\<close> is the rest of a call \<^verbatim>\<open>dfs(node)\<close>: the \<^verbatim>\<open>for\<close> loop over
  the neighbours still to visit, then \<^verbatim>\<open>path.pop()\<close> and \<^verbatim>\<open>color[node] = BLACK\<close>. A
  recursive call \<^verbatim>\<open>dfs(neighbor)\<close> first colours the neighbour gray and appends it to the
  path. The result is \<open>None\<close> when the call does not return, \<open>Some (Inl e)\<close> when it
  raises (\<^verbatim>\<open>path.index\<close> on a name that is not on the path, \<^verbatim>\<open>pop\<close> on an empty path).
\<close>

partial_function (option) dfs_from ::
  "(string \<rightharpoonup> string list) \<Rightarrow> string \<Rightarrow> string list \<Rightarrow> dfs_state
     \<Rightarrow> (error + dfs_state) option" where
  "dfs_from adj node nbrs st =
     (case nbrs of
        [] \<Rightarrow>
          (if path st = [] then Some (Inl IndexError)
           else Some (Inr (st\<lparr>path := butlast (path st),
                              color := (color st)(node \<mapsto> BLACK)\<rparr>)))
      | neighbor # rest \<Rightarrow>
          if color st neighbor = Some GRAY then
            (if neighbor \<in> set (path st) then
               dfs_from adj node rest
                 (st\<lparr>cycles := cycles st
                     @ [dropWhile (\<lambda>x. x \<noteq> neighbor) (path st) @ [neighbor]]\<rparr>)
             else Some (Inl (ValueError neighbor)))
          else if color st neighbor = Some WHITE then
            Option.bind
              (dfs_from adj neighbor (adj_get adj neighbor)
                 (st\<lparr>color := (color st)(neighbor \<mapsto> GRAY), path := path st @ [neighbor]\<rparr>))
              (\<lambda>r. case r of
                     Inl e \<Rightarrow> Some (Inl e)
                   | Inr st' \<Rightarrow> dfs_from adj node rest st')
          else dfs_from adj node rest st)"

definition dfs ::
  "(string \<rightharpoonup> string list) \<Rightarrow> string \<Rightarrow> dfs_state \<Rightarrow> (error + dfs_state) option" where
  "dfs adj node st =
     dfs_from adj node (adj_get adj node)
       (st\<lparr>color := (color st)(node \<mapsto> GRAY), path := path st @ [node]\<rparr>)"

text \<open>\<^verbatim>\<open>for node in self.languages: if color[node] == WHITE: dfs(node)\<close>\<close>

fun dfs_roots ::
  "(string \<rightharpoonup> string list) \<Rightarrow> string list \<Rightarrow> dfs_state \<Rightarrow> (error + dfs_state) option" where
  "dfs_roots adj [] st = Some (Inr st)"
| "dfs_roots adj (node # rest) st =
     (case color st node of
        None \<Rightarrow> Some (Inl (KeyError node))
      | Some c \<Rightarrow>
          if c = WHITE then
            (case dfs adj node st of
               None \<Rightarrow> None
             | Some (Inl e) \<Rightarrow> Some (Inl e)
             | Some (Inr st') \<Rightarrow> dfs_roots adj rest st')
          else dfs_roots adj rest st)"

definition detect_import_cycles ::
  "DomainLanguageGraph \<Rightarrow> (error + string list list) option" where
  "detect_import_cycles g =
     (let adj = build_adj (edges g);
          names = map fst (languages g)
      in case dfs_roots adj names
             \<lparr>color = map_of (map (\<lambda>name. (name, WHITE)) names), path = [], cycles = []\<rparr> of
           None \<Rightarrow> None
         | Some (Inl e) \<Rightarrow> Some (Inl e)
         | Some (Inr st) \<Rightarrow> Some (Inr (cycles st)))"

text \<open>
  The inner loop of Kahn's algorithm in \<^verbatim>\<open>topological_order\<close>:
  \<^verbatim>\<open>for neighbor in adj.get(node, []): in_degree[neighbor] -= 1; if in_degree[neighbor] == 0: queue.append(neighbor)\<close>.
\<close>

fun relax ::
  "string list \<Rightarrow> (string \<rightharpoonup> int) \<times> string list
     \<Rightarrow> error + (string \<rightharpoonup> int) \<times> string list" where
  "relax [] (in_degree, queue) = Inr (in_degree, queue)"
| "relax (neighbor # rest) (in_degree, queue) =
     (case in_degree neighbor of
        None \<Rightarrow> Inl (KeyError neighbor)
      | Some v \<Rightarrow>
          if v - 1 = 0 then relax rest (in_degree(neighbor \<mapsto> v - 1), queue @ [neighbor])
          else relax rest (in_degree(neighbor \<mapsto> v - 1), queue))"

text \<open>
  \<^verbatim>\<open>while queue: queue.sort(); node = queue.pop(0); order.append(node); ...\<close>; \<open>None\<close>
  when the loop does not end.
\<close>

partial_function (option) kahn_loop ::
  "(string \<rightharpoonup> string list) \<Rightarrow> string list \<Rightarrow> (string \<rightharpoonup> int) \<Rightarrow> string list
     \<Rightarrow> (error + string list) option" where
  "kahn_loop adj queue in_degree order =
     (if queue = [] then Some (Inr order)
      else
        let sorted = sort queue;
            node = hd sorted
        in case relax (adj_get adj node) (in_degree, tl sorted) of
             Inl e \<Rightarrow> Some (Inl e)
           | Inr (in_degree', queue') \<Rightarrow> kahn_loop adj queue' in_degree' (order @ [node]))"

text \<open>
  \<^verbatim>\<open>in_degree = {name: 0 for name in self.languages}\<close>, then for every edge
  \<^verbatim>\<open>in_degree.setdefault(edge.target, 0)\<close>.
\<close>

definition init_in_degree :: "DomainLanguageGraph \<Rightarrow> (string \<rightharpoonup> int)" where
  "init_in_degree g =
     fold (\<lambda>edge in_degree.
        (case in_degree (edge_target edge) of
           None \<Rightarrow> in_degree(edge_target edge \<mapsto> 0)
         | Some v \<Rightarrow> in_degree))
       (edges g) (map_of (map (\<lambda>name. (name, 0)) (map fst (languages g))))"

text \<open>
  The result is \<open>Some (Inr None)\<close> for Python's \<^verbatim>\<open>None\<close> and \<open>Some (Inr (Some order))\<close> for
  a list.
\<close>

definition topological_order ::
  "DomainLanguageGraph \<Rightarrow> (error + string list option) option" where
  "topological_order g =
     (case detect_import_cycles g of
        None \<Rightarrow> None
      | Some (Inl e) \<Rightarrow> Some (Inl e)
      | Some (Inr found) \<Rightarrow>
          if found \<noteq> [] then Some (Inr None)
          else
            (let adj = build_adj (edges g);
                 in_degree = init_in_degree g;
                 queue = filter (\<lambda>n. (case in_degree n of None \<Rightarrow> 0 | Some v \<Rightarrow> v) = 0)
                           (map fst (languages g))
             in (case kahn_loop adj queue in_degree [] of
                   None \<Rightarrow> None
                 | Some (Inl e) \<Rightarrow> Some (Inl e)
                 | Some (Inr order) \<Rightarrow>
                     if length order \<noteq> length (languages g) then Some (Inr None)
                     else Some (Inr (Some order)))))"

section \<open>Validation results (\<^verbatim>\<open>dds/validation.py\<close>)\<close>

datatype ConditionStatus = PASS | FAIL | UNKNOWN_PRESENT

record ConditionResult =
  condition_number :: nat
  condition_name :: string
  status :: ConditionStatus
  details :: "string list"

definition passed :: "ConditionResult \<Rightarrow> bool" where
  "passed c = (status c \<in> {PASS, UNKNOWN_PRESENT})"

record AdmissibilityResult =
  adm_conditions :: "ConditionResult list"

definition is_admissible :: "AdmissibilityResult \<Rightarrow> bool" where
  "is_admissible r = list_all passed (adm_conditions r)"

record RuleEvaluationResult =
  violations :: "string list"
  advisories :: "string list"
  constraint_failures :: "string list"

text \<open>\<^verbatim>\<open>RuleEvaluationResult.is_valid\<close>\<close>

definition rules_valid :: "RuleEvaluationResult \<Rightarrow> bool" where
  "rules_valid r = (length (violations r) = 0 \<and> length (constraint_failures r) = 0)"

record ValidationResult =
  conditions :: "ConditionResult list"

definition is_valid :: "ValidationResult \<Rightarrow> bool" where
  "is_valid r = list_all passed (conditions r)"

section \<open>Admissibility conditions 1 to 4\<close>

definition check_vocabulary_closure ::
  "DomainLanguageGraph \<Rightarrow> SemanticWorld \<Rightarrow> ConditionResult" where
  "check_vocabulary_closure g world =
     (let composed = composed_vocab g;
          entity_types = {t. EEntity t \<in> composed};
          composed_rels = composed_relations g;
          (details, failed) =
            fold (\<lambda>elem (details, failed).
               if entity_type elem \<notin> entity_types then
                 (details @ [''Entity type '' @ squote @ entity_name (entity_type elem) @ squote
                     @ '' (element '' @ squote @ identity elem @ squote
                     @ '') not in Vocab(DomLG)''], True)
               else (details, failed))
              (elements world) ([], False);
          (details, failed) =
            fold (\<lambda>rel (details, failed).
               if relation rel \<notin> composed_rels then
                 (details @ [''Relation '' @ squote @ relation_name (relation rel) @ squote
                     @ '' not declared in any Domain Language''], True)
               else (details, failed))
              (relations world) (details, failed)
      in \<lparr>condition_number = 1, condition_name = ''Vocabulary Closure'',
          status = (if failed then FAIL else PASS), details = details\<rparr>)"

text \<open>
  \<^verbatim>\<open>type_to_lang.setdefault(entity, set()).add(lang_name)\<close> and
  \<^verbatim>\<open>rel_to_lang[rel] = lang_name\<close>, over all languages of the graph.
\<close>

definition build_type_to_lang :: "DomainLanguageGraph \<Rightarrow> (EntityType \<rightharpoonup> string set)" where
  "build_type_to_lang g =
     fold (\<lambda>(name, lang) m.
        fold (\<lambda>entity m.
           m(entity \<mapsto> insert name (case m entity of None \<Rightarrow> {} | Some ns \<Rightarrow> ns)))
          (entities lang) m)
       (languages g) Map.empty"

definition build_rel_to_lang :: "DomainLanguageGraph \<Rightarrow> (Relation \<rightharpoonup> string)" where
  "build_rel_to_lang g =
     fold (\<lambda>(name, lang) m. fold (\<lambda>rel m. m(rel \<mapsto> name)) (lang_relations lang) m)
       (languages g) Map.empty"

text \<open>
  The body of the loop over the asserted relations. \<open>repr_names\<close> is Python's rendering
  of a set of names inside an f-string (\<^verbatim>\<open>set.__repr__\<close>: the order of the names follows
  their hashes and each is quoted by \<^verbatim>\<open>str.__repr__\<close>); it is a parameter.
\<close>

definition relation_admissibility_step ::
  "(string set \<Rightarrow> string) \<Rightarrow> DomainLanguageGraph \<Rightarrow> SemanticWorld
     \<Rightarrow> (EntityType \<rightharpoonup> string set) \<Rightarrow> (Relation \<rightharpoonup> string)
     \<Rightarrow> SemanticRelation \<Rightarrow> string list \<times> bool \<Rightarrow> string list \<times> bool" where
  "relation_admissibility_step repr_names g world type_to_lang rel_to_lang sem_rel acc =
     (let (details, failed) = acc;
          rel = relation sem_rel
      in
      if rel_to_lang rel = None then
        (details @ [''Relation '' @ squote @ relation_name rel @ squote
            @ '' not declared in any Domain Language''], True)
      else
        (case (get_element_by_id world (source_id sem_rel),
               get_element_by_id world (target_id sem_rel)) of
           (Some source_elem, Some target_elem) \<Rightarrow>
             (let (details, failed) =
                    (if entity_type source_elem \<noteq> relation_source rel then
                       (details @ [''Relation '' @ squote @ relation_name rel @ squote
                           @ '': source '' @ squote @ identity source_elem @ squote
                           @ '' has type '' @ squote @ entity_name (entity_type source_elem)
                           @ squote @ '', expected '' @ squote
                           @ entity_name (relation_source rel) @ squote], True)
                     else (details, failed));
                  (details, failed) =
                    (if entity_type target_elem \<noteq> relation_target rel then
                       (details @ [''Relation '' @ squote @ relation_name rel @ squote
                           @ '': target '' @ squote @ identity target_elem @ squote
                           @ '' has type '' @ squote @ entity_name (entity_type target_elem)
                           @ squote @ '', expected '' @ squote
                           @ entity_name (relation_target rel) @ squote], True)
                     else (details, failed));
                  source_langs =
                    (case type_to_lang (entity_type source_elem) of
                       None \<Rightarrow> {} | Some ns \<Rightarrow> ns);
                  target_langs =
                    (case type_to_lang (entity_type target_elem) of
                       None \<Rightarrow> {} | Some ns \<Rightarrow> ns)
              in
              if source_langs \<noteq> {} \<and> target_langs \<noteq> {} \<and> source_langs \<inter> target_langs = {}
              then
                (let has_edge =
                       list_ex (\<lambda>edge.
                          (edge_source edge \<in> source_langs \<and> edge_target edge \<in> target_langs)
                          \<or> (edge_source edge \<in> target_langs \<and> edge_target edge \<in> source_langs))
                         (edges g)
                 in if \<not> has_edge then
                      (details @ [''Cross-language relation '' @ squote @ relation_name rel
                          @ squote @ '' between '' @ repr_names source_langs @ '' and ''
                          @ repr_names target_langs @ '' has no DomLG edge''], True)
                    else (details, failed))
              else (details, failed))
         | _ \<Rightarrow>
             (details @ [''Relation '' @ squote @ relation_name rel @ squote
                 @ '' references unknown element(s): source='' @ source_id sem_rel
                 @ '', target='' @ target_id sem_rel], True)))"

definition check_relation_admissibility ::
  "(string set \<Rightarrow> string) \<Rightarrow> DomainLanguageGraph \<Rightarrow> SemanticWorld \<Rightarrow> ConditionResult" where
  "check_relation_admissibility repr_names g world =
     (let type_to_lang = build_type_to_lang g;
          rel_to_lang = build_rel_to_lang g;
          (details, failed) =
            fold (relation_admissibility_step repr_names g world type_to_lang rel_to_lang)
              (relations world) ([], False)
      in \<lparr>condition_number = 2, condition_name = ''Relation Admissibility'',
          status = (if failed then FAIL else PASS), details = details\<rparr>)"

text \<open>The local variables \<^verbatim>\<open>details\<close>, \<^verbatim>\<open>failed\<close> and \<^verbatim>\<open>has_unknowns\<close> of \<^verbatim>\<open>_check_completeness\<close>.\<close>

record completeness_state =
  cs_details :: "string list"
  cs_failed :: bool
  cs_has_unknowns :: bool

text \<open>
  One element under a \<open>MUST\<close> rule on an attribute:
  \<^verbatim>\<open>val = elem.attribute_values.get(target.name)\<close>, which is \<^verbatim>\<open>None\<close> for a missing key.
\<close>

definition completeness_attribute_step ::
  "Attribute \<Rightarrow> SemanticElement \<Rightarrow> completeness_state \<Rightarrow> completeness_state" where
  "completeness_attribute_step tgt elem st =
     (let val = (case attribute_values elem (attr_name tgt) of None \<Rightarrow> VNone | Some v \<Rightarrow> v)
      in
      if val = VNone then
        st\<lparr>cs_details := cs_details st @ [''MUST('' @ repr_Attribute tgt @ ''): element ''
              @ squote @ identity elem @ squote @ '' silently omits required attribute''],
           cs_failed := True\<rparr>
      else if val = VUnknown then
        st\<lparr>cs_details := cs_details st @ [''MUST('' @ repr_Attribute tgt @ ''): element ''
              @ squote @ identity elem @ squote @ '' has UNKNOWN value (explicit gap)''],
           cs_has_unknowns := True\<rparr>
      else st)"

text \<open>One element under a \<open>MUST\<close> rule on a relation.\<close>

definition completeness_relation_step ::
  "SemanticWorld \<Rightarrow> Relation \<Rightarrow> SemanticElement \<Rightarrow> completeness_state \<Rightarrow> completeness_state" where
  "completeness_relation_step world tgt elem st =
     (let has_relation =
            list_ex (\<lambda>sr. relation sr = tgt \<and> source_id sr = identity elem) (relations world)
      in
      if \<not> has_relation then
        st\<lparr>cs_details := cs_details st @ [''MUST('' @ repr_Relation tgt @ ''): element ''
              @ squote @ identity elem @ squote @ '' missing required relation''],
           cs_failed := True\<rparr>
      else st)"

definition completeness_rule_step ::
  "SemanticWorld \<Rightarrow> NormativeRule \<Rightarrow> completeness_state \<Rightarrow> completeness_state" where
  "completeness_rule_step world rule st =
     (if operator rule \<noteq> MUST then st
      else
        (case element (target rule) of
           EAttribute tgt \<Rightarrow>
             fold (completeness_attribute_step tgt)
               (get_elements_by_type world (attr_entity tgt)) st
         | ERelation tgt \<Rightarrow>
             fold (completeness_relation_step world tgt)
               (get_elements_by_type world (relation_source tgt)) st
         | _ \<Rightarrow> st))"

definition completeness_loop ::
  "DomainLanguageGraph \<Rightarrow> SemanticWorld \<Rightarrow> completeness_state" where
  "completeness_loop g world =
     fold (\<lambda>lang st. fold (completeness_rule_step world) (normative_rules lang) st)
       (map snd (languages g))
       \<lparr>cs_details = [], cs_failed = False, cs_has_unknowns = False\<rparr>"

definition check_completeness :: "DomainLanguageGraph \<Rightarrow> SemanticWorld \<Rightarrow> ConditionResult" where
  "check_completeness g world =
     (let st = completeness_loop g world
      in \<lparr>condition_number = 3, condition_name = ''Completeness with Explicit Gaps'',
          status = (if cs_failed st then FAIL
                    else if cs_has_unknowns st then UNKNOWN_PRESENT
                    else PASS),
          details = cs_details st\<rparr>)"

definition check_no_inference :: "SemanticWorld \<Rightarrow> ConditionResult" where
  "check_no_inference world =
     (let details =
            fold (\<lambda>elem details.
               if provenance elem = [] then
                 details @ [''Element '' @ squote @ identity elem @ squote @ '' (''
                     @ entity_name (entity_type elem) @ '') has no provenance '' @ emdash
                     @ '' may be inferred'']
               else details)
              (elements world) [];
          details =
            fold (\<lambda>rel details.
               if rel_provenance rel = [] then
                 details @ [''Relation '' @ squote @ relation_name (relation rel) @ squote
                     @ '' ('' @ source_id rel @ '' -> '' @ target_id rel
                     @ '') has no provenance '' @ emdash @ '' may be inferred'']
               else details)
              (relations world) details
      in \<lparr>condition_number = 4, condition_name = ''No Implicit Inference'',
          status = PASS, details = details\<rparr>)"

definition check_admissibility ::
  "(string set \<Rightarrow> string) \<Rightarrow> DomainLanguageGraph \<Rightarrow> SemanticWorld \<Rightarrow> AdmissibilityResult" where
  "check_admissibility repr_names g world =
     \<lparr>adm_conditions =
        [check_vocabulary_closure g world,
         check_relation_admissibility repr_names g world,
         check_completeness g world,
         check_no_inference world]\<rparr>"

section \<open>Rule evaluation and the five-condition predicate\<close>

text \<open>\<^verbatim>\<open>desc = target.description or repr(target.element)\<close>\<close>

definition desc_of :: "NormativeTarget \<Rightarrow> string" where
  "desc_of tgt = (if description tgt \<noteq> [] then description tgt else repr_element (element tgt))"

text \<open>\<^verbatim>\<open>if isinstance(violation, list): for v in violation: ... append(f"  -> {v}")\<close>\<close>

definition arrow_lines :: "pyval \<Rightarrow> string list" where
  "arrow_lines v = (case v of VList vs \<Rightarrow> map (\<lambda>x. ''  -> '' @ x) vs | _ \<Rightarrow> [])"

text \<open>The body of the \<open>MUST_NOT\<close> loop, with its \<^verbatim>\<open>try\<close> / \<^verbatim>\<open>except Exception as e\<close>.\<close>

definition must_not_step ::
  "SemanticWorld \<Rightarrow> NormativeRule \<Rightarrow> RuleEvaluationResult \<Rightarrow> RuleEvaluationResult" where
  "must_not_step world rule result =
     (if operator rule \<noteq> MUST_NOT then result
      else
        (let tgt = target rule in
         case condition tgt of
           Some cond \<Rightarrow>
             (case cond world of
                Returns violation \<Rightarrow>
                  if truthy violation then
                    result\<lparr>violations := violations result
                      @ [''MUST_NOT violation: '' @ desc_of tgt] @ arrow_lines violation\<rparr>
                  else result
              | Raises e \<Rightarrow>
                  result\<lparr>violations := violations result
                    @ [''Error evaluating MUST_NOT condition: '' @ e]\<rparr>)
         | None \<Rightarrow>
             (case element tgt of
                EEntity t \<Rightarrow>
                  (let found = get_elements_by_type world t in
                   if found \<noteq> [] then
                     result\<lparr>violations := violations result
                       @ [''MUST_NOT('' @ repr_EntityType t
                           @ ''): forbidden entity type found (''
                           @ str_of_nat (length found) @ '' instances)'']\<rparr>
                   else result)
              | _ \<Rightarrow> result)))"

text \<open>
  The body of the \<open>SHOULD\<close> and of the \<open>SHOULD_NOT\<close> loop, with its \<^verbatim>\<open>try\<close> /
  \<^verbatim>\<open>except Exception: pass\<close>; the two loops differ in the operator and the prefix only.
\<close>

definition advisory_step ::
  "NormativeOp \<Rightarrow> string \<Rightarrow> SemanticWorld \<Rightarrow> NormativeRule \<Rightarrow> RuleEvaluationResult
     \<Rightarrow> RuleEvaluationResult" where
  "advisory_step oper prefix world rule result =
     (if operator rule \<noteq> oper then result
      else
        (let tgt = target rule in
         case condition tgt of
           Some cond \<Rightarrow>
             (case cond world of
                Returns issue \<Rightarrow>
                  if truthy issue then
                    result\<lparr>advisories := advisories result
                      @ [prefix @ desc_of tgt] @ arrow_lines issue\<rparr>
                  else result
              | Raises e \<Rightarrow> result)
         | None \<Rightarrow> result))"

definition should_step ::
  "SemanticWorld \<Rightarrow> NormativeRule \<Rightarrow> RuleEvaluationResult \<Rightarrow> RuleEvaluationResult" where
  "should_step = advisory_step SHOULD ''SHOULD advisory: ''"

definition should_not_step ::
  "SemanticWorld \<Rightarrow> NormativeRule \<Rightarrow> RuleEvaluationResult \<Rightarrow> RuleEvaluationResult" where
  "should_not_step = advisory_step SHOULD_NOT ''SHOULD_NOT advisory: ''"

text \<open>The body of the loop over the constraints of the language called \<open>name\<close>.\<close>

definition constraint_step ::
  "SemanticWorld \<Rightarrow> string \<Rightarrow> Constraint \<Rightarrow> RuleEvaluationResult \<Rightarrow> RuleEvaluationResult" where
  "constraint_step world name c result =
     (case predicate c world of
        Returns satisfied \<Rightarrow>
          if \<not> truthy satisfied then
            result\<lparr>constraint_failures := constraint_failures result
              @ [''['' @ name @ ''] '' @ constraint_name c @ '': '' @ constraint_description c]\<rparr>
          else result
      | Raises e \<Rightarrow>
          result\<lparr>constraint_failures := constraint_failures result
            @ [''Error evaluating constraint '' @ squote @ constraint_name c @ squote
                @ '': '' @ e]\<rparr>)"

definition evaluate_language ::
  "SemanticWorld \<Rightarrow> DomainLanguage \<Rightarrow> RuleEvaluationResult \<Rightarrow> RuleEvaluationResult" where
  "evaluate_language world lang result =
     (let result = fold (must_not_step world) (normative_rules lang) result;
          result = fold (should_step world) (normative_rules lang) result;
          result = fold (should_not_step world) (normative_rules lang) result
      in fold (constraint_step world (lang_name lang)) (constraints lang) result)"

definition empty_result :: RuleEvaluationResult where
  "empty_result = \<lparr>violations = [], advisories = [], constraint_failures = []\<rparr>"

definition evaluate_rules :: "DomainLanguageGraph \<Rightarrow> SemanticWorld \<Rightarrow> RuleEvaluationResult" where
  "evaluate_rules g world = fold (evaluate_language world) (map snd (languages g)) empty_result"

text \<open>
  The three loops of \<^verbatim>\<open>_check_consistency\<close> copy the violations, the advisories and the
  constraint failures into \<^verbatim>\<open>details\<close>; the first and the third set \<^verbatim>\<open>failed\<close> at each
  element.
\<close>

definition check_consistency :: "DomainLanguageGraph \<Rightarrow> SemanticWorld \<Rightarrow> ConditionResult" where
  "check_consistency g world =
     (let rule_result = evaluate_rules g world;
          details = violations rule_result @ advisories rule_result
            @ map (\<lambda>cf. ''Constraint violation: '' @ cf) (constraint_failures rule_result);
          failed = (violations rule_result \<noteq> [] \<or> constraint_failures rule_result \<noteq> [])
      in \<lparr>condition_number = 5, condition_name = ''Consistency'',
          status = (if failed then FAIL else PASS), details = details\<rparr>)"

definition validate ::
  "(string set \<Rightarrow> string) \<Rightarrow> DomainLanguageGraph \<Rightarrow> SemanticWorld \<Rightarrow> ValidationResult" where
  "validate repr_names g world =
     \<lparr>conditions =
        [check_vocabulary_closure g world,
         check_relation_admissibility repr_names g world,
         check_completeness g world,
         check_no_inference world,
         check_consistency g world]\<rparr>"

section \<open>Predicates used in the statements\<close>

text \<open>
  The element \<open>e\<close> carries no value for the attribute \<open>a\<close>: the key is absent from its
  attribute map, or it is bound to \<^verbatim>\<open>None\<close> (the code tests \<^verbatim>\<open>val is None\<close> on the
  result of \<^verbatim>\<open>dict.get\<close>, which cannot tell the two apart).
\<close>

definition lacks_value :: "Attribute \<Rightarrow> SemanticElement \<Rightarrow> bool" where
  "lacks_value a e =
     (attribute_values e (attr_name a) = None \<or> attribute_values e (attr_name a) = Some VNone)"

text \<open>
  A \<open>MUST\<close> rule whose requirement some element of the world misses: an element of the
  owning entity type without a value for the attribute, or an element of the source
  entity type without an outgoing asserted relation of the required kind.
\<close>

definition must_requirement_missed :: "SemanticWorld \<Rightarrow> NormativeRule \<Rightarrow> bool" where
  "must_requirement_missed w r =
     (operator r = MUST \<and>
      (case element (target r) of
         EAttribute a \<Rightarrow> list_ex (lacks_value a) (get_elements_by_type w (attr_entity a))
       | ERelation rel \<Rightarrow>
           list_ex (\<lambda>e. \<not> list_ex (\<lambda>sr. relation sr = rel \<and> source_id sr = identity e)
                                (relations w))
             (get_elements_by_type w (relation_source rel))
       | _ \<Rightarrow> False))"

text \<open>A \<open>MUST\<close> rule on an attribute that some element sets to \<^verbatim>\<open>UNKNOWN\<close>.\<close>

definition must_value_unknown :: "SemanticWorld \<Rightarrow> NormativeRule \<Rightarrow> bool" where
  "must_value_unknown w r =
     (operator r = MUST \<and>
      (case element (target r) of
         EAttribute a \<Rightarrow>
           list_ex (\<lambda>e. attribute_values e (attr_name a) = Some VUnknown)
             (get_elements_by_type w (attr_entity a))
       | _ \<Rightarrow> False))"

definition some_must_requirement_missed :: "DomainLanguageGraph \<Rightarrow> SemanticWorld \<Rightarrow> bool" where
  "some_must_requirement_missed g w =
     list_ex (\<lambda>l. list_ex (must_requirement_missed w) (normative_rules l))
       (map snd (languages g))"

definition some_must_value_unknown :: "DomainLanguageGraph \<Rightarrow> SemanticWorld \<Rightarrow> bool" where
  "some_must_value_unknown g w =
     list_ex (\<lambda>l. list_ex (must_value_unknown w) (normative_rules l)) (map snd (languages g))"

text \<open>
  What one rule, or one constraint, contributes to the result of \<open>evaluate_rules\<close>:
  the lines that its loop body appends when it starts from an empty result.
\<close>

definition rule_violations :: "SemanticWorld \<Rightarrow> NormativeRule \<Rightarrow> string list" where
  "rule_violations w r = violations (must_not_step w r empty_result)"

definition advisory_lines ::
  "NormativeOp \<Rightarrow> string \<Rightarrow> SemanticWorld \<Rightarrow> NormativeRule \<Rightarrow> string list" where
  "advisory_lines oper prefix w r = advisories (advisory_step oper prefix w r empty_result)"

definition should_lines :: "SemanticWorld \<Rightarrow> NormativeRule \<Rightarrow> string list" where
  "should_lines = advisory_lines SHOULD ''SHOULD advisory: ''"

definition should_not_lines :: "SemanticWorld \<Rightarrow> NormativeRule \<Rightarrow> string list" where
  "should_not_lines = advisory_lines SHOULD_NOT ''SHOULD_NOT advisory: ''"

definition constraint_lines :: "SemanticWorld \<Rightarrow> string \<Rightarrow> Constraint \<Rightarrow> string list" where
  "constraint_lines w name c = constraint_failures (constraint_step w name c empty_result)"

text \<open>
  The condition that answers \<^verbatim>\<open>False\<close> wherever \<open>c\<close> answers \<^verbatim>\<open>UNKNOWN\<close> and agrees with
  \<open>c\<close> everywhere else; the rule, the language and the graph in which every condition
  is replaced by that one.
\<close>

definition unknown_as_false :: "condition \<Rightarrow> condition" where
  "unknown_as_false c w =
     (case c w of Returns VUnknown \<Rightarrow> Returns (VBool False) | out \<Rightarrow> out)"

definition unknown_as_false_rule :: "NormativeRule \<Rightarrow> NormativeRule" where
  "unknown_as_false_rule r =
     r\<lparr>target := (target r)\<lparr>condition := map_option unknown_as_false (condition (target r))\<rparr>\<rparr>"

definition unknown_as_false_lang :: "DomainLanguage \<Rightarrow> DomainLanguage" where
  "unknown_as_false_lang l =
     l\<lparr>normative_rules := map unknown_as_false_rule (normative_rules l)\<rparr>"

definition unknown_as_false_graph :: "DomainLanguageGraph \<Rightarrow> DomainLanguageGraph" where
  "unknown_as_false_graph g =
     g\<lparr>languages := map (\<lambda>(name, l). (name, unknown_as_false_lang l)) (languages g)\<rparr>"

text \<open>The error string of \<open>check_closure\<close> for a rule whose target is not known.\<close>

definition closure_error :: "NormativeRule \<Rightarrow> string" where
  "closure_error r =
     ''Normative rule '' @ repr_NormativeRule r @ '' references unknown element: ''
       @ repr_element (element (target r))"

text \<open>
  The vocabularies of the declared imports that resolve in the dict \<open>m\<close>, and the set
  of elements a rule of \<open>l\<close> may target without an error of \<open>check_closure\<close>.
\<close>

definition imported_vocab ::
  "(string \<rightharpoonup> DomainLanguage) \<Rightarrow> ImportDecl list \<Rightarrow> element set" where
  "imported_vocab m imps =
     (\<Union>imp \<in> set imps.
        case m (target_name imp) of None \<Rightarrow> {} | Some imported \<Rightarrow> vocab imported)"

definition resolvable ::
  "DomainLanguage \<Rightarrow> (string \<rightharpoonup> DomainLanguage) option \<Rightarrow> element set" where
  "resolvable l resolved_imports =
     (case resolved_imports of
        None \<Rightarrow> vocab l
      | Some m \<Rightarrow> vocab l \<union> imported_vocab m (lang_imports l))
     \<union> ERelation ` set (lang_relations l)"

definition unresolved_import_errors ::
  "DomainLanguage \<Rightarrow> (string \<rightharpoonup> DomainLanguage) option \<Rightarrow> string list" where
  "unresolved_import_errors l resolved_imports =
     (case resolved_imports of
        None \<Rightarrow> []
      | Some m \<Rightarrow>
          map (\<lambda>imp. ''Unresolved import: '' @ target_name imp)
            (filter (\<lambda>imp. m (target_name imp) = None) (lang_imports l)))"

text \<open>
  The transitively resolved imports of \<open>l\<close> under the dict \<open>m\<close>: the languages that a
  declared import of \<open>l\<close> resolves to, and those that a declared import of one of these
  resolves to, and so on.
\<close>

inductive_set transitively_resolved ::
  "(string \<rightharpoonup> DomainLanguage) \<Rightarrow> DomainLanguage \<Rightarrow> DomainLanguage set"
  for m :: "string \<rightharpoonup> DomainLanguage" and l :: DomainLanguage where
  direct:
    "imp \<in> set (lang_imports l) \<Longrightarrow> m (target_name imp) = Some l'
     \<Longrightarrow> l' \<in> transitively_resolved m l"
| step:
    "l' \<in> transitively_resolved m l \<Longrightarrow> imp \<in> set (lang_imports l')
     \<Longrightarrow> m (target_name imp) = Some l'' \<Longrightarrow> l'' \<in> transitively_resolved m l"

text \<open>
  The elements that the claim about \<open>check_closure\<close> lets a rule of \<open>l\<close> target: the
  local vocabulary, the language's own declared relations and, when resolved imports
  are supplied, the vocabulary of each transitively resolved import.
\<close>

definition closed_over ::
  "DomainLanguage \<Rightarrow> (string \<rightharpoonup> DomainLanguage) option \<Rightarrow> element set" where
  "closed_over l resolved_imports =
     vocab l \<union> ERelation ` set (lang_relations l)
     \<union> (case resolved_imports of
          None \<Rightarrow> {}
        | Some m \<Rightarrow> (\<Union>l' \<in> transitively_resolved m l. vocab l'))"

section \<open>Concrete inputs\<close>

definition ent_T :: element where
  "ent_T = EEntity (EntityType ''target'')"

definition rule_must :: NormativeRule where
  "rule_must = \<lparr>rid = 0, operator = MUST,
     target = \<lparr>element = ent_T, condition = None, description = []\<rparr>,
     override_ref = None\<rparr>"

definition rule_must_not_overriding :: NormativeRule where
  "rule_must_not_overriding = \<lparr>rid = 1, operator = MUST_NOT,
     target = \<lparr>element = ent_T, condition = None, description = []\<rparr>,
     override_ref = Some 0\<rparr>"

definition rule_must_not_when :: NormativeRule where
  "rule_must_not_when = \<lparr>rid = 2, operator = MUST_NOT,
     target = \<lparr>element = ent_T, condition = Some (\<lambda>w. Returns (VBool True)),
       description = ''when X''\<rparr>,
     override_ref = None\<rparr>"

definition rule_must_not_plain :: NormativeRule where
  "rule_must_not_plain = \<lparr>rid = 6, operator = MUST_NOT,
     target = \<lparr>element = ent_T, condition = None, description = []\<rparr>,
     override_ref = None\<rparr>"

text \<open>A rule whose override reference is a third rule (identity 99), not \<open>rule_must\<close>.\<close>

definition rule_must_not_overriding_other :: NormativeRule where
  "rule_must_not_overriding_other = \<lparr>rid = 7, operator = MUST_NOT,
     target = \<lparr>element = ent_T, condition = None, description = []\<rparr>,
     override_ref = Some 99\<rparr>"

definition rule_must_when :: NormativeRule where
  "rule_must_when = \<lparr>rid = 8, operator = MUST,
     target = \<lparr>element = ent_T, condition = Some (\<lambda>w. Returns (VBool True)),
       description = ''when Y''\<rparr>,
     override_ref = None\<rparr>"

text \<open>The domain of \<^verbatim>\<open>tests/test_validation.py\<close> (\<^verbatim>\<open>_simple_domain\<close>) and variations of it.\<close>

definition person :: EntityType where
  "person = EntityType ''Person''"

definition item :: EntityType where
  "item = EntityType ''Item''"

definition name_attr :: Attribute where
  "name_attr = Attribute ''name'' person (Some PyStr) REQUIRED"

definition verified_attr :: Attribute where
  "verified_attr = Attribute ''verified'' person (Some PyBool) REQUIRED"

definition label_attr :: Attribute where
  "label_attr = Attribute ''label'' item (Some PyStr) REQUIRED"

definition owns :: Relation where
  "owns = Relation ''owns'' person item"

definition must_verified :: NormativeRule where
  "must_verified = \<lparr>rid = 0, operator = MUST,
     target = \<lparr>element = EAttribute verified_attr, condition = None,
       description = ''Person must be verified''\<rparr>,
     override_ref = None\<rparr>"

definition must_name :: NormativeRule where
  "must_name = \<lparr>rid = 1, operator = MUST,
     target = \<lparr>element = EAttribute name_attr, condition = None, description = []\<rparr>,
     override_ref = None\<rparr>"

definition simple_lang :: DomainLanguage where
  "simple_lang = \<lparr>lang_name = ''TestDomain'', entities = [person, item],
     attributes = [(person, [name_attr, verified_attr]), (item, [label_attr])],
     operations = [], normative_rules = [must_verified], constraints = [],
     lang_imports = [], lang_relations = [owns]\<rparr>"

definition simple_domain :: DomainLanguageGraph where
  "simple_domain = \<lparr>languages = [(''TestDomain'', simple_lang)], edges = []\<rparr>"

text \<open>The same domain with a second \<open>MUST\<close> rule, on the attribute \<open>name\<close>.\<close>

definition two_must_domain :: DomainLanguageGraph where
  "two_must_domain =
     \<lparr>languages =
        [(''TestDomain'', simple_lang\<lparr>normative_rules := [must_verified, must_name]\<rparr>)],
      edges = []\<rparr>"

definition alice_unknown :: SemanticElement where
  "alice_unknown = \<lparr>entity_type = person, identity = ''p1'',
     attribute_values = [''name'' \<mapsto> VStr ''Alice'', ''verified'' \<mapsto> VUnknown],
     provenance = ''input''\<rparr>"

definition alice_unverified :: SemanticElement where
  "alice_unverified = \<lparr>entity_type = person, identity = ''p1'',
     attribute_values = [''name'' \<mapsto> VStr ''Alice''], provenance = ''input''\<rparr>"

definition nameless_unknown :: SemanticElement where
  "nameless_unknown = \<lparr>entity_type = person, identity = ''p1'',
     attribute_values = [''verified'' \<mapsto> VUnknown], provenance = ''input''\<rparr>"

definition zog :: SemanticElement where
  "zog = \<lparr>entity_type = EntityType ''Alien'', identity = ''a1'',
     attribute_values = [''name'' \<mapsto> VStr ''Zog''], provenance = []\<rparr>"

definition world_of :: "SemanticElement \<Rightarrow> SemanticWorld" where
  "world_of e = \<lparr>elements = [e], relations = []\<rparr>"

text \<open>A rendering of name sets for the closed statements below; none of them prints one.\<close>

definition plain_names :: "string set \<Rightarrow> string" where
  "plain_names ns = ''{...}''"

text \<open>The simple domain with a \<open>MUST_NOT\<close> rule whose condition always reports a violation.\<close>

definition forbid_always :: NormativeRule where
  "forbid_always = \<lparr>rid = 0, operator = MUST_NOT,
     target = \<lparr>element = EEntity person, condition = Some (\<lambda>w. Returns (VBool True)),
       description = ''never valid''\<rparr>,
     override_ref = None\<rparr>"

definition forbidding_domain :: DomainLanguageGraph where
  "forbidding_domain =
     \<lparr>languages = [(''TestDomain'', simple_lang\<lparr>normative_rules := [forbid_always]\<rparr>)],
      edges = []\<rparr>"

text \<open>Rules and constraints whose condition raises, or answers \<^verbatim>\<open>UNKNOWN\<close>.\<close>

definition must_not_boom :: NormativeRule where
  "must_not_boom = \<lparr>rid = 1, operator = MUST_NOT,
     target = \<lparr>element = EEntity person, condition = Some (\<lambda>w. Raises ''boom''),
       description = ''broken''\<rparr>,
     override_ref = None\<rparr>"

definition should_boom :: NormativeRule where
  "should_boom = \<lparr>rid = 2, operator = SHOULD,
     target = \<lparr>element = EEntity person, condition = Some (\<lambda>w. Raises ''boom''),
       description = ''broken''\<rparr>,
     override_ref = None\<rparr>"

definition should_warn :: NormativeRule where
  "should_warn = \<lparr>rid = 10, operator = SHOULD,
     target = \<lparr>element = EEntity person, condition = Some (\<lambda>w. Returns (VBool True)),
       description = ''review''\<rparr>,
     override_ref = None\<rparr>"

definition must_not_unknown :: NormativeRule where
  "must_not_unknown = \<lparr>rid = 3, operator = MUST_NOT,
     target = \<lparr>element = EEntity person, condition = Some (\<lambda>w. Returns VUnknown),
       description = ''cannot tell''\<rparr>,
     override_ref = None\<rparr>"

definition broken_constraint :: Constraint where
  "broken_constraint = \<lparr>constraint_name = ''broken'', constraint_description = ''raises'',
     predicate = (\<lambda>w. Raises ''boom''), references = []\<rparr>"

definition false_constraint :: Constraint where
  "false_constraint = \<lparr>constraint_name = ''never'', constraint_description = ''never holds'',
     predicate = (\<lambda>w. Returns (VBool False)), references = []\<rparr>"

definition broken_domain :: DomainLanguageGraph where
  "broken_domain =
     \<lparr>languages =
        [(''TestDomain'',
          simple_lang\<lparr>normative_rules :=
                        [must_not_boom, forbid_always, should_boom, should_warn],
                      constraints := [broken_constraint, false_constraint]\<rparr>)],
      edges = []\<rparr>"

definition should_boom_domain :: DomainLanguageGraph where
  "should_boom_domain =
     \<lparr>languages = [(''TestDomain'', simple_lang\<lparr>normative_rules := [should_boom]\<rparr>)],
      edges = []\<rparr>"

definition unknown_domain :: DomainLanguageGraph where
  "unknown_domain =
     \<lparr>languages = [(''TestDomain'', simple_lang\<lparr>normative_rules := [must_not_unknown]\<rparr>)],
      edges = []\<rparr>"

text \<open>Languages for \<open>check_closure\<close>: a rule on a declared relation, a rule on an undeclared entity.\<close>

definition must_owns :: NormativeRule where
  "must_owns = \<lparr>rid = 4, operator = MUST,
     target = \<lparr>element = ERelation owns, condition = None, description = []\<rparr>,
     override_ref = None\<rparr>"

definition owning_lang :: DomainLanguage where
  "owning_lang = simple_lang\<lparr>normative_rules := [must_owns]\<rparr>"

definition must_ghost :: NormativeRule where
  "must_ghost = \<lparr>rid = 5, operator = MUST,
     target = \<lparr>element = EEntity (EntityType ''Ghost''), condition = None, description = []\<rparr>,
     override_ref = None\<rparr>"

definition must_shared :: NormativeRule where
  "must_shared = \<lparr>rid = 9, operator = MUST,
     target = \<lparr>element = EEntity (EntityType ''Shared''), condition = None, description = []\<rparr>,
     override_ref = None\<rparr>"

text \<open>
  A language that imports \<open>Missing\<close> and \<open>Other\<close>, and the dict that resolves \<open>Other\<close>
  to a language declaring the entity \<open>Shared\<close>.
\<close>

definition haunted_lang :: DomainLanguage where
  "haunted_lang =
     simple_lang\<lparr>normative_rules := [must_ghost, must_shared],
                 lang_imports := [ImportDecl ''Missing'', ImportDecl ''Other'']\<rparr>"

definition other_lang :: DomainLanguage where
  "other_lang = \<lparr>lang_name = ''Other'', entities = [EntityType ''Shared''], attributes = [],
     operations = [], normative_rules = [], constraints = [], lang_imports = [],
     lang_relations = []\<rparr>"

definition resolved_other :: "string \<rightharpoonup> DomainLanguage" where
  "resolved_other = [''Other'' \<mapsto> other_lang]"

text \<open>Import graphs over languages without content (\<^verbatim>\<open>_make_lang\<close> of the graph tests).\<close>

definition bare_lang :: "string \<Rightarrow> DomainLanguage" where
  "bare_lang name = \<lparr>lang_name = name, entities = [], attributes = [], operations = [],
     normative_rules = [], constraints = [], lang_imports = [], lang_relations = []\<rparr>"

definition import_edge :: "string \<Rightarrow> string \<Rightarrow> DomLGEdge" where
  "import_edge s t = \<lparr>edge_source = s, edge_target = t, label = IMPORTS\<rparr>"

definition chain_graph :: DomainLanguageGraph where
  "chain_graph =
     \<lparr>languages = [(''A'', bare_lang ''A''), (''B'', bare_lang ''B''), (''C'', bare_lang ''C'')],
      edges = [import_edge ''A'' ''B'', import_edge ''B'' ''C'']\<rparr>"

definition backward_graph :: DomainLanguageGraph where
  "backward_graph =
     \<lparr>languages = [(''A'', bare_lang ''A''), (''B'', bare_lang ''B'')],
      edges = [import_edge ''B'' ''A'']\<rparr>"

definition cyclic_graph :: DomainLanguageGraph where
  "cyclic_graph =
     \<lparr>languages = [(''A'', bare_lang ''A''), (''B'', bare_lang ''B'')],
      edges = [import_edge ''A'' ''B'', import_edge ''B'' ''A'']\<rparr>"

section \<open>Self-QC: the pairwise decision procedure\<close>

lemma conflicting_not_compatible:
  "{x, y} \<in> fst ` set CONFLICTING_PAIRS \<Longrightarrow> \<not> is_compatible_pair x y"
  by (cases x; cases y)
     (simp_all add: CONFLICTING_PAIRS_def is_compatible_pair_def COMPATIBLE_PAIRS_def
        doubleton_eq_iff)

lemma check_interaction_finding:
  "check_interaction a b = Some d \<Longrightarrow> finding_type d \<noteq> NO_DEFAULT"
  by (auto simp: check_interaction_def Let_def split: if_splits)

text \<open>
  C8. Whatever the sequence of rules, no finding returned by \<open>check_all_interactions\<close>
  has kind \<open>NO_DEFAULT\<close>: the kind is declared and never produced.
\<close>

theorem check_all_interactions_never_no_default:
  "\<forall>d \<in> set (check_all_interactions rules). finding_type d \<noteq> NO_DEFAULT"
  by (auto simp: check_all_interactions_def check_interaction_finding split: option.splits)

theorem check_all_interactions_never_no_default_witness:
  "check_all_interactions [rule_must, rule_must_not_when] \<noteq> []
   \<and> finding_type (hd (check_all_interactions [rule_must, rule_must_not_when])) \<noteq> NO_DEFAULT"
proof -
  have ne: "check_all_interactions [rule_must, rule_must_not_when] \<noteq> []"
    by (simp add: check_all_interactions_def check_interaction_def same_target_def
          rule_must_def rule_must_not_when_def is_compatible_pair_def COMPATIBLE_PAIRS_def
          doubleton_eq_iff Let_def upt_rec)
  then have "hd (check_all_interactions [rule_must, rule_must_not_when])
      \<in> set (check_all_interactions [rule_must, rule_must_not_when])"
    by (rule hd_in_set)
  with check_all_interactions_never_no_default [of "[rule_must, rule_must_not_when]"] ne
  show ?thesis by blast
qed

lemma six_pairs_not_compatible:
  "{x, y} \<in> {{MUST, MUST_NOT}, {MUST, SHOULD_NOT}, {SHOULD, MUST_NOT}, {SHOULD, SHOULD_NOT},
              {MAY, MUST_NOT}, {MAY, SHOULD_NOT}}
   \<Longrightarrow> \<not> is_compatible_pair x y"
  by (cases x; cases y)
     (simp_all add: is_compatible_pair_def COMPATIBLE_PAIRS_def doubleton_eq_iff)

text \<open>
  C1. Two rules on the same target element whose operators form one of the six
  conflicting pairs and which are at equal specificity (both conditional or both
  unconditional): if the override reference of one names the other
  (\<open>override_ref a = Some (rid b)\<close> or \<open>override_ref b = Some (rid a)\<close>), the finding is
  \<open>OVERRIDE\<close> with severity \<open>INFO\<close>; otherwise, and in particular when neither rule
  has an override reference, it is \<open>CONFLICT\<close> with severity \<open>ERROR\<close> when both are
  unconditional and \<open>AMBIGUITY\<close> with severity \<open>WARNING\<close> when both are conditional.
\<close>

theorem check_interaction_equal_specificity:
  assumes "element (target a) = element (target b)"
    and "{operator a, operator b} \<in>
           {{MUST, MUST_NOT}, {MUST, SHOULD_NOT}, {SHOULD, MUST_NOT}, {SHOULD, SHOULD_NOT},
            {MAY, MUST_NOT}, {MAY, SHOULD_NOT}}"
    and "(condition (target a) = None) = (condition (target b) = None)"
  shows "\<exists>d. check_interaction a b = Some d \<and>
           (if override_ref a = Some (rid b) \<or> override_ref b = Some (rid a)
            then finding_type d = OVERRIDE \<and> severity d = INFO
            else if condition (target a) = None
            then finding_type d = CONFLICT \<and> severity d = ERROR
            else finding_type d = AMBIGUITY \<and> severity d = WARNING)"
proof -
  from assms(2) have "\<not> is_compatible_pair (operator a) (operator b)"
    by (rule six_pairs_not_compatible)
  with assms(1,3) show ?thesis
    by (auto simp: check_interaction_def same_target_def overrides_def Let_def)
qed

theorem check_interaction_equal_specificity_witness:
  "(\<exists>d. check_interaction rule_must rule_must_not_overriding = Some d
        \<and> finding_type d = OVERRIDE \<and> severity d = INFO)
   \<and> (\<exists>d. check_interaction rule_must rule_must_not_plain = Some d
        \<and> finding_type d = CONFLICT \<and> severity d = ERROR)
   \<and> (\<exists>d. check_interaction rule_must rule_must_not_overriding_other = Some d
        \<and> finding_type d = CONFLICT \<and> severity d = ERROR)
   \<and> (\<exists>d. check_interaction rule_must_when rule_must_not_when = Some d
        \<and> finding_type d = AMBIGUITY \<and> severity d = WARNING)"
proof -
  have six: "{MUST, MUST_NOT} \<in>
      {{MUST, MUST_NOT}, {MUST, SHOULD_NOT}, {SHOULD, MUST_NOT}, {SHOULD, SHOULD_NOT},
       {MAY, MUST_NOT}, {MAY, SHOULD_NOT}}"
    by simp
  have o1: "\<exists>d. check_interaction rule_must rule_must_not_overriding = Some d
        \<and> finding_type d = OVERRIDE \<and> severity d = INFO"
    using check_interaction_equal_specificity [of rule_must rule_must_not_overriding] six
    by (simp add: rule_must_def rule_must_not_overriding_def)
  have o2: "\<exists>d. check_interaction rule_must rule_must_not_plain = Some d
        \<and> finding_type d = CONFLICT \<and> severity d = ERROR"
    using check_interaction_equal_specificity [of rule_must rule_must_not_plain] six
    by (simp add: rule_must_def rule_must_not_plain_def)
  have o3: "\<exists>d. check_interaction rule_must rule_must_not_overriding_other = Some d
        \<and> finding_type d = CONFLICT \<and> severity d = ERROR"
    using check_interaction_equal_specificity [of rule_must rule_must_not_overriding_other] six
    by (simp add: rule_must_def rule_must_not_overriding_other_def)
  have o4: "\<exists>d. check_interaction rule_must_when rule_must_not_when = Some d
        \<and> finding_type d = AMBIGUITY \<and> severity d = WARNING"
    using check_interaction_equal_specificity [of rule_must_when rule_must_not_when] six
    by (simp add: rule_must_when_def rule_must_not_when_def)
  from o1 o2 o3 o4 show ?thesis by blast
qed

text \<open>
  C5. Two rules on the same target element whose operators conflict, exactly one of
  which carries a condition: the finding is \<open>EXCEPTION\<close> with severity \<open>INFO\<close>, the
  conditional rule is recorded as the specific rule (\<open>rule_a\<close>) and the unconditional
  one as the general rule (\<open>rule_b\<close>), and the finding is the same whichever of the two
  is passed first.
\<close>

theorem check_interaction_exception_symmetric:
  assumes "same_target c u"
    and "{operator c, operator u} \<in> fst ` set CONFLICTING_PAIRS"
    and "condition (target c) \<noteq> None"
    and "condition (target u) = None"
  shows "\<exists>d. check_interaction c u = Some d \<and> check_interaction u c = Some d
           \<and> finding_type d = EXCEPTION \<and> severity d = INFO
           \<and> rule_a d = c \<and> rule_b d = u"
proof -
  from assms(2) have nc: "\<not> is_compatible_pair (operator c) (operator u)"
    by (rule conflicting_not_compatible)
  then have nc': "\<not> is_compatible_pair (operator u) (operator c)"
    by (simp add: is_compatible_pair_def insert_commute eq_commute)
  from assms(1) have st: "same_target u c" "element (target u) = element (target c)"
    by (simp_all add: same_target_def)
  from assms(1,3,4) nc nc' st show ?thesis
    by (simp add: check_interaction_def Let_def)
qed

theorem check_interaction_exception_symmetric_witness:
  "\<exists>d. check_interaction rule_must_not_when rule_must = Some d
       \<and> check_interaction rule_must rule_must_not_when = Some d
       \<and> finding_type d = EXCEPTION \<and> severity d = INFO
       \<and> rule_a d = rule_must_not_when \<and> rule_b d = rule_must"
proof -
  have h1: "same_target rule_must_not_when rule_must"
    by (simp add: same_target_def rule_must_def rule_must_not_when_def)
  have h2: "{operator rule_must_not_when, operator rule_must} \<in> fst ` set CONFLICTING_PAIRS"
    by (simp add: CONFLICTING_PAIRS_def rule_must_def rule_must_not_when_def doubleton_eq_iff)
  have h3: "condition (target rule_must_not_when) \<noteq> None"
    by (simp add: rule_must_not_when_def)
  have h4: "condition (target rule_must) = None"
    by (simp add: rule_must_def)
  from check_interaction_exception_symmetric [OF h1 h2 h3 h4] show ?thesis .
qed

section \<open>Admissibility\<close>

lemmas simple_domain_defs =
  person_def item_def name_attr_def verified_attr_def label_attr_def owns_def must_verified_def
  must_name_def simple_lang_def simple_domain_def two_must_domain_def alice_unknown_def
  alice_unverified_def nameless_unknown_def zog_def world_of_def forbid_always_def
  forbidding_domain_def

lemmas admissibility_defs =
  check_vocabulary_closure_def composed_vocab_def vocab_def composed_relations_def
  check_relation_admissibility_def check_no_inference_def check_completeness_def
  completeness_loop_def completeness_rule_step_def completeness_attribute_step_def
  completeness_relation_step_def get_elements_by_type_def get_element_by_id_def

lemmas evaluation_defs =
  check_consistency_def evaluate_rules_def evaluate_language_def must_not_step_def
  should_step_def should_not_step_def advisory_step_def constraint_step_def empty_result_def
  desc_of_def arrow_lines_def get_elements_by_type_def

lemma fold_append_if:
  "fold (\<lambda>x acc. if P x then acc @ [f x] else acc) xs acc = acc @ map f (filter P xs)"
  by (induction xs arbitrary: acc) simp_all

lemma fold_flag:
  "fold (\<lambda>x (ds, fl). if P x then (ds @ [f x], True) else (ds, fl)) xs (ds0, fl0) =
     (ds0 @ map f (filter P xs), fl0 \<or> list_ex P xs)"
  by (induction xs arbitrary: ds0 fl0) auto

lemma check_vocabulary_closure_status:
  "status (check_vocabulary_closure g w) =
     (if list_ex (\<lambda>e. EEntity (entity_type e) \<notin> composed_vocab g) (elements w)
         \<or> list_ex (\<lambda>r. relation r \<notin> composed_relations g) (relations w)
      then FAIL else PASS)"
  by (simp add: check_vocabulary_closure_def Let_def fold_flag)

subsection \<open>Completeness with explicit gaps\<close>

lemma attribute_fold_failed:
  "cs_failed (fold (completeness_attribute_step a) es st) =
     (cs_failed st \<or> list_ex (lacks_value a) es)"
  by (induction es arbitrary: st)
     (auto simp: completeness_attribute_step_def lacks_value_def Let_def split: option.splits)

lemma attribute_fold_unknowns:
  "cs_has_unknowns (fold (completeness_attribute_step a) es st) =
     (cs_has_unknowns st \<or> list_ex (\<lambda>e. attribute_values e (attr_name a) = Some VUnknown) es)"
  by (induction es arbitrary: st)
     (auto simp: completeness_attribute_step_def Let_def split: option.splits)

lemma relation_fold_failed:
  "cs_failed (fold (completeness_relation_step w rel) es st) =
     (cs_failed st
      \<or> list_ex (\<lambda>e. \<not> list_ex (\<lambda>sr. relation sr = rel \<and> source_id sr = identity e)
                           (relations w)) es)"
  by (induction es arbitrary: st) (auto simp: completeness_relation_step_def Let_def)

lemma relation_fold_unknowns:
  "cs_has_unknowns (fold (completeness_relation_step w rel) es st) = cs_has_unknowns st"
  by (induction es arbitrary: st) (auto simp: completeness_relation_step_def Let_def)

lemma rule_step_failed:
  "cs_failed (completeness_rule_step w r st) = (cs_failed st \<or> must_requirement_missed w r)"
  by (auto simp: completeness_rule_step_def must_requirement_missed_def attribute_fold_failed
        relation_fold_failed split: element.splits)

lemma rule_step_unknowns:
  "cs_has_unknowns (completeness_rule_step w r st) =
     (cs_has_unknowns st \<or> must_value_unknown w r)"
  by (auto simp: completeness_rule_step_def must_value_unknown_def attribute_fold_unknowns
        relation_fold_unknowns split: element.splits)

lemma rules_fold_failed:
  "cs_failed (fold (completeness_rule_step w) rs st) =
     (cs_failed st \<or> list_ex (must_requirement_missed w) rs)"
  by (induction rs arbitrary: st) (auto simp: rule_step_failed)

lemma rules_fold_unknowns:
  "cs_has_unknowns (fold (completeness_rule_step w) rs st) =
     (cs_has_unknowns st \<or> list_ex (must_value_unknown w) rs)"
  by (induction rs arbitrary: st) (auto simp: rule_step_unknowns)

lemma langs_fold_failed:
  "cs_failed (fold (\<lambda>lang st. fold (completeness_rule_step w) (normative_rules lang) st) ls st) =
     (cs_failed st \<or> list_ex (\<lambda>l. list_ex (must_requirement_missed w) (normative_rules l)) ls)"
  by (induction ls arbitrary: st) (auto simp: rules_fold_failed)

lemma langs_fold_unknowns:
  "cs_has_unknowns
     (fold (\<lambda>lang st. fold (completeness_rule_step w) (normative_rules lang) st) ls st) =
     (cs_has_unknowns st \<or> list_ex (\<lambda>l. list_ex (must_value_unknown w) (normative_rules l)) ls)"
  by (induction ls arbitrary: st) (auto simp: rules_fold_unknowns)

lemma check_completeness_status:
  "status (check_completeness g w) =
     (if some_must_requirement_missed g w then FAIL
      else if some_must_value_unknown g w then UNKNOWN_PRESENT else PASS)"
  by (simp add: check_completeness_def completeness_loop_def Let_def langs_fold_failed
        langs_fold_unknowns some_must_requirement_missed_def some_must_value_unknown_def)

lemma is_admissible_iff:
  "is_admissible (check_admissibility rn g w) =
     (passed (check_vocabulary_closure g w) \<and> passed (check_relation_admissibility rn g w)
      \<and> passed (check_completeness g w))"
  by (simp add: is_admissible_def check_admissibility_def passed_def check_no_inference_def
        Let_def)

lemma is_valid_iff:
  "is_valid (validate rn g w) =
     (passed (check_vocabulary_closure g w) \<and> passed (check_relation_admissibility rn g w)
      \<and> passed (check_completeness g w) \<and> passed (check_consistency g w))"
  by (simp add: is_valid_def validate_def passed_def check_no_inference_def Let_def)

text \<open>
  C2, as stated, fails: with a second \<open>MUST\<close> rule on the attribute \<open>name\<close>, the element
  \<open>p1\<close> sets \<open>verified\<close> to \<^verbatim>\<open>UNKNOWN\<close> and no element misses \<open>verified\<close>, yet the
  Completeness condition is \<open>FAIL\<close>, because \<open>p1\<close> misses \<open>name\<close>.
\<close>

theorem completeness_unknown_counterexample:
  "must_verified \<in> set (normative_rules (snd (hd (languages two_must_domain))))
   \<and> operator must_verified = MUST
   \<and> element (target must_verified) = EAttribute verified_attr
   \<and> get_elements_by_type (world_of nameless_unknown) (attr_entity verified_attr)
       = [nameless_unknown]
   \<and> attribute_values nameless_unknown (attr_name verified_attr) = Some VUnknown
   \<and> status (check_completeness two_must_domain (world_of nameless_unknown)) = FAIL"
  by (simp add: simple_domain_defs admissibility_defs Let_def)

text \<open>
  C2, amended. For a \<open>MUST\<close> rule of a language of the graph that targets an attribute
  \<open>a\<close>, and a world element \<open>e\<close> of the entity type that owns \<open>a\<close>: if the attribute
  map of \<open>e\<close> has no entry for the name of \<open>a\<close>, the Completeness condition has status
  \<open>FAIL\<close>; if the entry is exactly \<^verbatim>\<open>UNKNOWN\<close> and no \<open>MUST\<close> requirement of the graph
  (this rule's or any other's, on an attribute or on a relation) is missed by any element,
  the Completeness condition has status \<open>UNKNOWN_PRESENT\<close>, which counts as passing, so
  that the world is admissible when Vocabulary Closure and Relation Admissibility pass, and
  valid when Consistency passes as well.
\<close>

theorem completeness_missing_fails_unknown_passes:
  assumes "l \<in> set (map snd (languages g))"
    and "r \<in> set (normative_rules l)"
    and "operator r = MUST"
    and "element (target r) = EAttribute a"
    and "e \<in> set (elements w)"
    and "entity_type e = attr_entity a"
  shows "(attribute_values e (attr_name a) = None \<longrightarrow>
            status (check_completeness g w) = FAIL \<and> \<not> passed (check_completeness g w))
       \<and> (attribute_values e (attr_name a) = Some VUnknown
            \<and> \<not> some_must_requirement_missed g w \<longrightarrow>
            status (check_completeness g w) = UNKNOWN_PRESENT
            \<and> passed (check_completeness g w)
            \<and> is_admissible (check_admissibility rn g w) =
                (passed (check_vocabulary_closure g w)
                 \<and> passed (check_relation_admissibility rn g w))
            \<and> is_valid (validate rn g w) =
                (passed (check_vocabulary_closure g w)
                 \<and> passed (check_relation_admissibility rn g w)
                 \<and> passed (check_consistency g w)))"
proof -
  from assms(5,6) have mem: "e \<in> set (get_elements_by_type w (attr_entity a))"
    by (simp add: get_elements_by_type_def)
  have missed: "some_must_requirement_missed g w"
    if "attribute_values e (attr_name a) = None"
  proof -
    from that mem have "list_ex (lacks_value a) (get_elements_by_type w (attr_entity a))"
      by (auto simp: list_ex_iff lacks_value_def)
    with assms(3,4) have "must_requirement_missed w r"
      by (simp add: must_requirement_missed_def)
    with assms(1,2) show ?thesis
      unfolding some_must_requirement_missed_def list_ex_iff by blast
  qed
  have unknown: "some_must_value_unknown g w"
    if "attribute_values e (attr_name a) = Some VUnknown"
  proof -
    from that mem
    have "list_ex (\<lambda>e. attribute_values e (attr_name a) = Some VUnknown)
            (get_elements_by_type w (attr_entity a))"
      by (auto simp: list_ex_iff)
    with assms(3,4) have "must_value_unknown w r"
      by (simp add: must_value_unknown_def)
    with assms(1,2) show ?thesis
      unfolding some_must_value_unknown_def list_ex_iff by blast
  qed
  show ?thesis
    using missed unknown
    by (auto simp: check_completeness_status passed_def is_admissible_iff is_valid_iff)
qed

theorem completeness_missing_fails_unknown_passes_witness:
  "status (check_completeness simple_domain (world_of alice_unverified)) = FAIL
   \<and> status (check_completeness simple_domain (world_of alice_unknown)) = UNKNOWN_PRESENT
   \<and> is_valid (validate plain_names simple_domain (world_of alice_unknown))"
proof -
  have h1: "simple_lang \<in> set (map snd (languages simple_domain))"
    by (simp add: simple_domain_def)
  have h2: "must_verified \<in> set (normative_rules simple_lang)"
    by (simp add: simple_lang_def)
  have h3: "operator must_verified = MUST"
    by (simp add: must_verified_def)
  have h4: "element (target must_verified) = EAttribute verified_attr"
    by (simp add: must_verified_def)
  have m5: "alice_unverified \<in> set (elements (world_of alice_unverified))"
    by (simp add: world_of_def)
  have m6: "entity_type alice_unverified = attr_entity verified_attr"
    by (simp add: alice_unverified_def verified_attr_def)
  have u5: "alice_unknown \<in> set (elements (world_of alice_unknown))"
    by (simp add: world_of_def)
  have u6: "entity_type alice_unknown = attr_entity verified_attr"
    by (simp add: alice_unknown_def verified_attr_def)
  have mv: "attribute_values alice_unverified (attr_name verified_attr) = None"
    by (simp add: alice_unverified_def verified_attr_def)
  have uv: "attribute_values alice_unknown (attr_name verified_attr) = Some VUnknown"
    by (simp add: alice_unknown_def verified_attr_def)
  have nm: "\<not> some_must_requirement_missed simple_domain (world_of alice_unknown)"
    by (simp add: some_must_requirement_missed_def must_requirement_missed_def lacks_value_def
          simple_domain_defs get_elements_by_type_def)
  have others: "passed (check_vocabulary_closure simple_domain (world_of alice_unknown))"
    "passed (check_relation_admissibility plain_names simple_domain (world_of alice_unknown))"
    "passed (check_consistency simple_domain (world_of alice_unknown))"
    by (simp_all add: passed_def simple_domain_defs admissibility_defs evaluation_defs Let_def)
  from completeness_missing_fails_unknown_passes [OF h1 h2 h3 h4 m5 m6] mv
  have "status (check_completeness simple_domain (world_of alice_unverified)) = FAIL"
    by blast
  moreover
  from completeness_missing_fails_unknown_passes
         [OF h1 h2 h3 h4 u5 u6, where rn = plain_names] uv nm others
  have "status (check_completeness simple_domain (world_of alice_unknown)) = UNKNOWN_PRESENT
        \<and> is_valid (validate plain_names simple_domain (world_of alice_unknown))"
    by blast
  ultimately show ?thesis by blast
qed

subsection \<open>Vocabulary closure and the Consistency condition\<close>

text \<open>
  C3, as stated, fails: the entity type \<open>Alien\<close> is in no vocabulary, Vocabulary Closure
  is \<open>FAIL\<close>, and \<open>validate\<close> still reports, as its fifth condition, the violation that
  the condition of the \<open>MUST_NOT\<close> rule returned: the rule was evaluated.
\<close>

theorem validate_not_gated_counterexample:
  "EEntity (entity_type zog) \<notin> composed_vocab forbidding_domain
   \<and> status (conditions (validate plain_names forbidding_domain (world_of zog)) ! 0) = FAIL
   \<and> \<not> is_admissible (check_admissibility plain_names forbidding_domain (world_of zog))
   \<and> details (conditions (validate plain_names forbidding_domain (world_of zog)) ! 4)
       = [''MUST_NOT violation: never valid'']
   \<and> violations (evaluate_rules forbidding_domain (world_of zog))
       = [''MUST_NOT violation: never valid'']"
  by (simp add: simple_domain_defs admissibility_defs evaluation_defs validate_def
        check_admissibility_def is_admissible_def passed_def Let_def)

text \<open>
  C3, amended. When the entity type of some world element is not in the composed
  vocabulary, Vocabulary Closure has status \<open>FAIL\<close> and the world is neither admissible
  nor valid. \<open>validate\<close> does not gate the evaluator on that: its fifth condition is the
  Consistency condition, whose details are the violations, advisories and constraint
  failures that \<open>evaluate_rules\<close> computes on the same graph and world. (Skipping rule
  evaluation for an inadmissible world is left to the caller of \<open>check_admissibility\<close>
  and \<open>evaluate_rules\<close>.)
\<close>

theorem closure_fails_and_rules_still_evaluated:
  assumes "e \<in> set (elements w)"
    and "EEntity (entity_type e) \<notin> composed_vocab g"
  shows "status (conditions (validate rn g w) ! 0) = FAIL
       \<and> condition_name (conditions (validate rn g w) ! 0) = ''Vocabulary Closure''
       \<and> status (adm_conditions (check_admissibility rn g w) ! 0) = FAIL
       \<and> \<not> is_admissible (check_admissibility rn g w)
       \<and> \<not> is_valid (validate rn g w)
       \<and> conditions (validate rn g w) ! 4 = check_consistency g w
       \<and> details (conditions (validate rn g w) ! 4) =
           violations (evaluate_rules g w) @ advisories (evaluate_rules g w)
           @ map (\<lambda>cf. ''Constraint violation: '' @ cf)
               (constraint_failures (evaluate_rules g w))"
proof -
  from assms have "list_ex (\<lambda>e. EEntity (entity_type e) \<notin> composed_vocab g) (elements w)"
    unfolding list_ex_iff by blast
  then have fail: "status (check_vocabulary_closure g w) = FAIL"
    by (simp add: check_vocabulary_closure_status)
  then have "\<not> passed (check_vocabulary_closure g w)"
    by (simp add: passed_def)
  then have "\<not> is_admissible (check_admissibility rn g w)" "\<not> is_valid (validate rn g w)"
    by (simp_all add: is_admissible_iff is_valid_iff)
  moreover have "condition_name (check_vocabulary_closure g w) = ''Vocabulary Closure''"
    by (simp add: check_vocabulary_closure_def Let_def split_beta)
  moreover have "details (check_consistency g w) =
      violations (evaluate_rules g w) @ advisories (evaluate_rules g w)
      @ map (\<lambda>cf. ''Constraint violation: '' @ cf) (constraint_failures (evaluate_rules g w))"
    by (simp add: check_consistency_def Let_def)
  ultimately show ?thesis
    using fail by (simp add: validate_def check_admissibility_def)
qed

theorem closure_fails_and_rules_still_evaluated_witness:
  "status (conditions (validate plain_names forbidding_domain (world_of zog)) ! 0) = FAIL
   \<and> \<not> is_valid (validate plain_names forbidding_domain (world_of zog))
   \<and> conditions (validate plain_names forbidding_domain (world_of zog)) ! 4
       = check_consistency forbidding_domain (world_of zog)"
proof -
  have h1: "zog \<in> set (elements (world_of zog))"
    by (simp add: world_of_def)
  have h2: "EEntity (entity_type zog) \<notin> composed_vocab forbidding_domain"
    by (simp add: simple_domain_defs composed_vocab_def vocab_def)
  from closure_fails_and_rules_still_evaluated [OF h1 h2, of plain_names]
  show ?thesis by blast
qed

subsection \<open>No implicit inference\<close>

text \<open>
  C9. Whatever the world, the fourth condition returned by \<open>check_admissibility\<close> and
  by \<open>validate\<close> is the No Implicit Inference condition with status \<open>PASS\<close>: it holds one
  detail string for each element and each relation with empty provenance, and it never
  makes the world inadmissible, which depends on the first three conditions only.
\<close>

theorem no_inference_always_passes:
  "condition_name (adm_conditions (check_admissibility rn g w) ! 3) = ''No Implicit Inference''
   \<and> status (adm_conditions (check_admissibility rn g w) ! 3) = PASS
   \<and> condition_name (conditions (validate rn g w) ! 3) = ''No Implicit Inference''
   \<and> status (conditions (validate rn g w) ! 3) = PASS
   \<and> passed (check_no_inference w)
   \<and> length (details (check_no_inference w)) =
       length (filter (\<lambda>e. provenance e = []) (elements w))
       + length (filter (\<lambda>r. rel_provenance r = []) (relations w))
   \<and> is_admissible (check_admissibility rn g w) =
       (passed (check_vocabulary_closure g w) \<and> passed (check_relation_admissibility rn g w)
        \<and> passed (check_completeness g w))"
  by (simp add: check_admissibility_def validate_def check_no_inference_def passed_def
        is_admissible_def Let_def fold_append_if)

section \<open>Rule evaluation\<close>

lemmas broken_defs =
  must_not_boom_def should_boom_def should_warn_def must_not_unknown_def broken_constraint_def
  false_constraint_def broken_domain_def should_boom_domain_def unknown_domain_def

lemma must_not_step_appends:
  "must_not_step w r res = res\<lparr>violations := violations res @ rule_violations w r\<rparr>"
  by (simp add: must_not_step_def rule_violations_def empty_result_def Let_def
        split: option.splits outcome.splits element.splits)

lemma advisory_step_appends:
  "advisory_step oper prefix w r res =
     res\<lparr>advisories := advisories res @ advisory_lines oper prefix w r\<rparr>"
  by (simp add: advisory_step_def advisory_lines_def empty_result_def Let_def
        split: option.splits outcome.splits)

lemma constraint_step_appends:
  "constraint_step w name c res =
     res\<lparr>constraint_failures := constraint_failures res @ constraint_lines w name c\<rparr>"
  by (simp add: constraint_step_def constraint_lines_def empty_result_def
        split: outcome.splits)

lemma fold_must_not_step:
  "fold (must_not_step w) rs res =
     res\<lparr>violations := violations res @ concat (map (rule_violations w) rs)\<rparr>"
proof (induction rs arbitrary: res)
  case Nil
  show ?case by simp
next
  case (Cons r rs)
  show ?case
    by (simp add: Cons.IH must_not_step_appends [of w r res])
qed

lemma fold_advisory_step:
  "fold (advisory_step oper prefix w) rs res =
     res\<lparr>advisories := advisories res @ concat (map (advisory_lines oper prefix w) rs)\<rparr>"
proof (induction rs arbitrary: res)
  case Nil
  show ?case by simp
next
  case (Cons r rs)
  show ?case
    by (simp add: Cons.IH advisory_step_appends [of oper prefix w r res])
qed

lemma fold_constraint_step:
  "fold (constraint_step w name) cs res =
     res\<lparr>constraint_failures := constraint_failures res
       @ concat (map (constraint_lines w name) cs)\<rparr>"
proof (induction cs arbitrary: res)
  case Nil
  show ?case by simp
next
  case (Cons c cs)
  show ?case
    by (simp add: Cons.IH constraint_step_appends [of w name c res])
qed

lemma evaluate_language_appends:
  "evaluate_language w l res =
     res\<lparr>violations := violations res @ concat (map (rule_violations w) (normative_rules l)),
         advisories := advisories res @ concat (map (should_lines w) (normative_rules l))
           @ concat (map (should_not_lines w) (normative_rules l)),
         constraint_failures := constraint_failures res
           @ concat (map (constraint_lines w (lang_name l)) (constraints l))\<rparr>"
  by (simp add: evaluate_language_def Let_def fold_must_not_step fold_constraint_step
        should_step_def should_not_step_def fold_advisory_step should_lines_def
        should_not_lines_def)

lemma fold_evaluate_language:
  "fold (evaluate_language w) ls res =
     res\<lparr>violations := violations res
           @ concat (map (\<lambda>l. concat (map (rule_violations w) (normative_rules l))) ls),
         advisories := advisories res
           @ concat (map (\<lambda>l. concat (map (should_lines w) (normative_rules l))
                             @ concat (map (should_not_lines w) (normative_rules l))) ls),
         constraint_failures := constraint_failures res
           @ concat (map (\<lambda>l. concat (map (constraint_lines w (lang_name l)) (constraints l)))
               ls)\<rparr>"
proof (induction ls arbitrary: res)
  case Nil
  show ?case by simp
next
  case (Cons l ls)
  show ?case
    by (simp add: Cons.IH evaluate_language_appends [of w l res])
qed

lemma evaluate_rules_lines:
  "evaluate_rules g w =
     \<lparr>violations =
        concat (map (\<lambda>l. concat (map (rule_violations w) (normative_rules l)))
          (map snd (languages g))),
      advisories =
        concat (map (\<lambda>l. concat (map (should_lines w) (normative_rules l))
                          @ concat (map (should_not_lines w) (normative_rules l)))
          (map snd (languages g))),
      constraint_failures =
        concat (map (\<lambda>l. concat (map (constraint_lines w (lang_name l)) (constraints l)))
          (map snd (languages g)))\<rparr>"
  by (simp add: evaluate_rules_def fold_evaluate_language empty_result_def)

text \<open>
  C6, as stated, fails: the condition of the only rule, a \<open>SHOULD\<close> rule, raises, and
  the result of \<open>evaluate_rules\<close> is empty; the Consistency condition has no detail. The
  error is caught and dropped, not reported.
\<close>

theorem should_error_unreported_counterexample:
  "should_boom \<in> set (normative_rules (snd (hd (languages should_boom_domain))))
   \<and> the (condition (target should_boom)) (world_of alice_unknown) = Raises ''boom''
   \<and> evaluate_rules should_boom_domain (world_of alice_unknown)
       = \<lparr>violations = [], advisories = [], constraint_failures = []\<rparr>
   \<and> details (check_consistency should_boom_domain (world_of alice_unknown)) = []"
  by (simp add: simple_domain_defs broken_defs evaluation_defs Let_def)

text \<open>
  C6, amended. For every rule condition or constraint predicate that raises an error
  during rule evaluation, the error being an exception derived from \<^verbatim>\<open>Exception\<close> with a
  message (\<open>Raises e\<close>: what the handlers, all of them \<^verbatim>\<open>except Exception\<close>, catch and
  format), the error is caught rather than propagated out of \<open>evaluate_rules\<close>: the loop
  body returns the result accumulated so far, with one string appended or none. Evaluation
  continues over all remaining rules and constraints: each of the three
  result lists is the concatenation, over the languages and then over their rules or
  constraints in order, of what each rule or constraint contributes by itself. The
  error of a \<open>MUST_NOT\<close> condition is reported as one violation string and the error of
  a constraint predicate as one constraint failure string; the error of a \<open>SHOULD\<close> or
  \<open>SHOULD_NOT\<close> condition is discarded and leaves no detail string.
\<close>

theorem evaluate_rules_contains_errors:
  "violations (evaluate_rules g w) =
     concat (map (\<lambda>l. concat (map (rule_violations w) (normative_rules l)))
       (map snd (languages g)))
   \<and> advisories (evaluate_rules g w) =
       concat (map (\<lambda>l. concat (map (should_lines w) (normative_rules l))
                         @ concat (map (should_not_lines w) (normative_rules l)))
         (map snd (languages g)))
   \<and> constraint_failures (evaluate_rules g w) =
       concat (map (\<lambda>l. concat (map (constraint_lines w (lang_name l)) (constraints l)))
         (map snd (languages g)))
   \<and> (operator r = MUST_NOT \<and> condition (target r) = Some c \<and> c w = Raises e \<longrightarrow>
        rule_violations w r = [''Error evaluating MUST_NOT condition: '' @ e])
   \<and> (condition (target r) = Some c \<and> c w = Raises e \<longrightarrow>
        should_lines w r = [] \<and> should_not_lines w r = [])
   \<and> (predicate k w = Raises e \<longrightarrow>
        constraint_lines w n k =
          [''Error evaluating constraint '' @ squote @ constraint_name k @ squote
             @ '': '' @ e])
   \<and> (operator r = MUST_NOT \<and> condition (target r) = Some c \<and> c w = Raises e \<longrightarrow>
        must_not_step w r res =
          res\<lparr>violations := violations res @ [''Error evaluating MUST_NOT condition: '' @ e]\<rparr>)
   \<and> (condition (target r) = Some c \<and> c w = Raises e \<longrightarrow>
        should_step w r res = res \<and> should_not_step w r res = res)
   \<and> (predicate k w = Raises e \<longrightarrow>
        constraint_step w n k res =
          res\<lparr>constraint_failures := constraint_failures res
            @ [''Error evaluating constraint '' @ squote @ constraint_name k @ squote
                 @ '': '' @ e]\<rparr>)"
proof -
  have "operator r = MUST_NOT \<and> condition (target r) = Some c \<and> c w = Raises e \<longrightarrow>
        rule_violations w r = [''Error evaluating MUST_NOT condition: '' @ e]"
    by (simp add: rule_violations_def must_not_step_def empty_result_def Let_def)
  moreover have "condition (target r) = Some c \<and> c w = Raises e \<longrightarrow>
        should_lines w r = [] \<and> should_not_lines w r = []"
    by (simp add: should_lines_def should_not_lines_def advisory_lines_def advisory_step_def
          empty_result_def Let_def)
  moreover have "predicate k w = Raises e \<longrightarrow>
        constraint_lines w n k =
          [''Error evaluating constraint '' @ squote @ constraint_name k @ squote
             @ '': '' @ e]"
    by (simp add: constraint_lines_def constraint_step_def empty_result_def)
  moreover have "operator r = MUST_NOT \<and> condition (target r) = Some c \<and> c w = Raises e \<longrightarrow>
        must_not_step w r res =
          res\<lparr>violations := violations res @ [''Error evaluating MUST_NOT condition: '' @ e]\<rparr>"
    by (simp add: must_not_step_def Let_def)
  moreover have "condition (target r) = Some c \<and> c w = Raises e \<longrightarrow>
        should_step w r res = res \<and> should_not_step w r res = res"
    by (simp add: should_step_def should_not_step_def advisory_step_def Let_def)
  moreover have "predicate k w = Raises e \<longrightarrow>
        constraint_step w n k res =
          res\<lparr>constraint_failures := constraint_failures res
            @ [''Error evaluating constraint '' @ squote @ constraint_name k @ squote
                 @ '': '' @ e]\<rparr>"
    by (simp add: constraint_step_def)
  ultimately show ?thesis
    by (simp add: evaluate_rules_lines)
qed

theorem evaluate_rules_contains_errors_witness:
  "violations (evaluate_rules broken_domain (world_of alice_unknown)) =
     [''Error evaluating MUST_NOT condition: boom'', ''MUST_NOT violation: never valid'']
   \<and> advisories (evaluate_rules broken_domain (world_of alice_unknown)) =
       [''SHOULD advisory: review'']
   \<and> constraint_failures (evaluate_rules broken_domain (world_of alice_unknown)) =
       [''Error evaluating constraint '' @ squote @ ''broken'' @ squote @ '': boom'',
        ''[TestDomain] never: never holds'']"
proof -
  let ?w = "world_of alice_unknown"
  have c: "operator must_not_boom = MUST_NOT
      \<and> condition (target must_not_boom) = Some (\<lambda>w. Raises ''boom'')
      \<and> (\<lambda>w. Raises ''boom'') ?w = Raises ''boom''"
    by (simp add: must_not_boom_def)
  have s: "condition (target should_boom) = Some (\<lambda>w. Raises ''boom'')
      \<and> (\<lambda>w. Raises ''boom'') ?w = Raises ''boom''"
    by (simp add: should_boom_def)
  have k: "predicate broken_constraint ?w = Raises ''boom''"
    by (simp add: broken_constraint_def)
  have v2: "rule_violations ?w forbid_always = [''MUST_NOT violation: never valid'']"
    "rule_violations ?w should_boom = []" "rule_violations ?w should_warn = []"
    by (simp_all add: rule_violations_def forbid_always_def should_boom_def should_warn_def
          evaluation_defs Let_def)
  have a2: "should_lines ?w must_not_boom = []" "should_lines ?w forbid_always = []"
    "should_lines ?w should_warn = [''SHOULD advisory: review'']"
    "should_not_lines ?w must_not_boom = []" "should_not_lines ?w forbid_always = []"
    "should_not_lines ?w should_warn = []"
    by (simp_all add: should_lines_def should_not_lines_def advisory_lines_def
          must_not_boom_def forbid_always_def should_warn_def evaluation_defs Let_def)
  have k2: "constraint_lines ?w ''TestDomain'' false_constraint
      = [''[TestDomain] never: never holds'']"
    by (simp add: constraint_lines_def false_constraint_def evaluation_defs)
  have names: "constraint_name broken_constraint = ''broken''"
    by (simp add: broken_constraint_def)
  have langs: "map snd (languages broken_domain) =
      [simple_lang\<lparr>normative_rules := [must_not_boom, forbid_always, should_boom, should_warn],
                  constraints := [broken_constraint, false_constraint]\<rparr>]"
    by (simp add: broken_domain_def)
  have lname: "lang_name simple_lang = ''TestDomain''"
    by (simp add: simple_lang_def)
  from evaluate_rules_contains_errors
    [of broken_domain ?w must_not_boom "\<lambda>w. Raises ''boom''" "''boom''"
        broken_constraint "''TestDomain''"]
    c k
  have m: "violations (evaluate_rules broken_domain ?w) =
        concat (map (\<lambda>l. concat (map (rule_violations ?w) (normative_rules l)))
          (map snd (languages broken_domain)))"
    "advisories (evaluate_rules broken_domain ?w) =
        concat (map (\<lambda>l. concat (map (should_lines ?w) (normative_rules l))
                          @ concat (map (should_not_lines ?w) (normative_rules l)))
          (map snd (languages broken_domain)))"
    "constraint_failures (evaluate_rules broken_domain ?w) =
        concat (map (\<lambda>l. concat (map (constraint_lines ?w (lang_name l)) (constraints l)))
          (map snd (languages broken_domain)))"
    "rule_violations ?w must_not_boom = [''Error evaluating MUST_NOT condition: boom'']"
    "constraint_lines ?w ''TestDomain'' broken_constraint =
        [''Error evaluating constraint '' @ squote @ ''broken'' @ squote @ '': boom'']"
    by (simp_all add: names)
  from evaluate_rules_contains_errors
    [of broken_domain ?w should_boom "\<lambda>w. Raises ''boom''" "''boom''"
        broken_constraint "''TestDomain''"]
    s
  have sb: "should_lines ?w should_boom = []" "should_not_lines ?w should_boom = []"
    by simp_all
  show ?thesis
    by (simp add: m langs lname v2 a2 k2 sb)
qed

lemma must_not_step_unknown_as_false:
  "must_not_step w (unknown_as_false_rule r) = must_not_step w r"
  by (rule ext)
     (auto simp: must_not_step_def unknown_as_false_rule_def unknown_as_false_def Let_def
        arrow_lines_def desc_of_def
        split: option.splits outcome.splits pyval.splits element.splits)

lemma advisory_step_unknown_as_false:
  "advisory_step oper prefix w (unknown_as_false_rule r) = advisory_step oper prefix w r"
  by (rule ext)
     (auto simp: advisory_step_def unknown_as_false_rule_def unknown_as_false_def Let_def
        arrow_lines_def desc_of_def
        split: option.splits outcome.splits pyval.splits)

lemma evaluate_language_unknown_as_false:
  "evaluate_language w (unknown_as_false_lang l) = evaluate_language w l"
  by (rule ext)
     (simp add: evaluate_language_def unknown_as_false_lang_def Let_def fold_map comp_def
        must_not_step_unknown_as_false should_step_def should_not_step_def
        advisory_step_unknown_as_false)

lemma evaluate_rules_unknown_as_false:
  "evaluate_rules (unknown_as_false_graph g) w = evaluate_rules g w"
  by (simp add: evaluate_rules_def unknown_as_false_graph_def fold_map comp_def split_beta
        evaluate_language_unknown_as_false)

text \<open>
  C10. A rule whose condition returns the \<^verbatim>\<open>UNKNOWN\<close> sentinel leaves the result of the
  \<open>MUST_NOT\<close>, the \<open>SHOULD\<close> and the \<open>SHOULD_NOT\<close> loop body unchanged: no violation and
  no advisory. That is what the same rule does with a condition that returns \<^verbatim>\<open>False\<close>
  instead, and \<open>evaluate_rules\<close> returns the same result on a graph and on the graph in
  which every \<^verbatim>\<open>UNKNOWN\<close> answer of a condition is replaced by \<^verbatim>\<open>False\<close>: the result cannot
  tell the two answers apart.
\<close>

theorem unknown_condition_reads_as_false:
  assumes "condition (target r) = Some c"
    and "c w = Returns VUnknown"
  shows "must_not_step w r res = res
       \<and> should_step w r res = res
       \<and> should_not_step w r res = res
       \<and> unknown_as_false c w = Returns (VBool False)
       \<and> must_not_step w (unknown_as_false_rule r) res = must_not_step w r res
       \<and> should_step w (unknown_as_false_rule r) res = should_step w r res
       \<and> should_not_step w (unknown_as_false_rule r) res = should_not_step w r res
       \<and> evaluate_rules (unknown_as_false_graph g) w = evaluate_rules g w"
proof -
  from assms have "must_not_step w r res = res" "should_step w r res = res"
    "should_not_step w r res = res" "unknown_as_false c w = Returns (VBool False)"
    by (simp_all add: must_not_step_def should_step_def should_not_step_def advisory_step_def
          unknown_as_false_def Let_def)
  then show ?thesis
    by (simp add: must_not_step_unknown_as_false should_step_def should_not_step_def
          advisory_step_unknown_as_false evaluate_rules_unknown_as_false)
qed

theorem unknown_condition_reads_as_false_witness:
  "must_not_step (world_of alice_unknown) must_not_unknown empty_result = empty_result
   \<and> evaluate_rules unknown_domain (world_of alice_unknown) = empty_result
   \<and> evaluate_rules (unknown_as_false_graph unknown_domain) (world_of alice_unknown)
       = empty_result"
proof -
  have h1: "condition (target must_not_unknown) = Some (\<lambda>w. Returns VUnknown)"
    by (simp add: must_not_unknown_def)
  have h2: "(\<lambda>w. Returns VUnknown) (world_of alice_unknown) = Returns VUnknown"
    by simp
  have ev: "evaluate_rules unknown_domain (world_of alice_unknown) = empty_result"
    by (simp add: simple_domain_defs broken_defs evaluation_defs Let_def)
  from unknown_condition_reads_as_false
    [OF h1 h2, where res = empty_result and g = unknown_domain] ev
  show ?thesis by simp
qed

section \<open>Closure of a domain language\<close>

lemma fold_imports:
  "fold (\<lambda>imp (errors, extended_vocab).
      (case m (target_name imp) of
         None \<Rightarrow> (errors @ [''Unresolved import: '' @ target_name imp], extended_vocab)
       | Some imported \<Rightarrow> (errors, extended_vocab \<union> vocab imported)))
     imps (errs, ext) =
   (errs @ map (\<lambda>imp. ''Unresolved import: '' @ target_name imp)
             (filter (\<lambda>imp. m (target_name imp) = None) imps),
    ext \<union> imported_vocab m imps)"
  by (induction imps arbitrary: errs ext)
     (auto simp: imported_vocab_def split: option.splits)

lemma fold_rules:
  "fold (\<lambda>rule errors.
      if element (target rule) \<notin> A then
        errors @ [''Normative rule '' @ repr_NormativeRule rule
                   @ '' references unknown element: ''
                   @ repr_element (element (target rule))]
      else errors)
     rs errs =
   errs @ map closure_error (filter (\<lambda>r. element (target r) \<notin> A) rs)"
  by (induction rs arbitrary: errs) (simp_all add: closure_error_def)

lemma check_closure_errors:
  "check_closure l ri =
     unresolved_import_errors l ri
     @ map closure_error
         (filter (\<lambda>r. element (target r) \<notin> resolvable l ri) (normative_rules l))"
proof (cases ri)
  case None
  then show ?thesis
    by (simp add: check_closure_def Let_def fold_rules unresolved_import_errors_def
          resolvable_def)
next
  case (Some m)
  then show ?thesis
    by (simp add: check_closure_def Let_def fold_imports fold_rules
          unresolved_import_errors_def resolvable_def)
qed

text \<open>
  C7, as stated, fails: the rule \<open>MUST(owns)\<close> targets a relation, which is not a
  member of the vocabulary (entities, attributes, operations), and \<open>check_closure\<close>
  reports no error for it, with or without resolved imports.
\<close>

theorem closure_accepts_relation_counterexample:
  "must_owns \<in> set (normative_rules owning_lang)
   \<and> element (target must_owns) \<notin> vocab owning_lang
   \<and> check_closure owning_lang None = []
   \<and> check_closure owning_lang (Some Map.empty) = []"
  by (simp add: check_closure_def must_owns_def owning_lang_def simple_domain_defs vocab_def
        Let_def)

lemma imported_vocab_transitive:
  "imported_vocab m (lang_imports l) \<subseteq> (\<Union>l' \<in> transitively_resolved m l. vocab l')"
proof
  fix x
  assume "x \<in> imported_vocab m (lang_imports l)"
  then obtain imp l' where "imp \<in> set (lang_imports l)" "m (target_name imp) = Some l'"
    "x \<in> vocab l'"
    by (auto simp: imported_vocab_def split: option.splits)
  then show "x \<in> (\<Union>l' \<in> transitively_resolved m l. vocab l')"
    by (blast intro: transitively_resolved.direct)
qed

lemma resolvable_closed_over: "resolvable l ri \<subseteq> closed_over l ri"
  using imported_vocab_transitive [of _ l]
  by (auto simp: resolvable_def closed_over_def split: option.splits)

text \<open>
  C7, amended. \<open>check_closure\<close> reports an error for every normative rule whose target
  element is not a member of the local vocabulary (entities, attributes, operations), nor
  one of the language's own declared relations, nor, when resolved imports are supplied,
  a member of the union of the local vocabulary and the \<open>vocab\<close> of each transitively
  resolved import; an import name that does not resolve is reported as an error, and
  that error string is never the one of an unresolved target.
\<close>

theorem check_closure_reports_unknown_targets:
  "(r \<in> set (normative_rules l) \<and> element (target r) \<notin> closed_over l ri \<longrightarrow>
      closure_error r \<in> set (check_closure l ri))
   \<and> (ri = Some m \<and> imp \<in> set (lang_imports l) \<and> m (target_name imp) = None \<longrightarrow>
        ''Unresolved import: '' @ target_name imp \<in> set (check_closure l ri))
   \<and> ''Unresolved import: '' @ target_name imp \<noteq> closure_error r"
proof -
  have rule_error: "closure_error r \<in> set (check_closure l ri)"
    if "r \<in> set (normative_rules l)" and "element (target r) \<notin> closed_over l ri"
  proof -
    from that(2) resolvable_closed_over [of l ri]
    have "element (target r) \<notin> resolvable l ri"
      by blast
    with that(1) show ?thesis
      by (simp add: check_closure_errors)
  qed
  have import_error: "''Unresolved import: '' @ target_name imp \<in> set (check_closure l ri)"
    if "ri = Some m" and "imp \<in> set (lang_imports l)" and "m (target_name imp) = None"
    using that by (auto simp: check_closure_errors unresolved_import_errors_def)
  have distinct_errors: "''Unresolved import: '' @ target_name imp \<noteq> closure_error r"
    by (simp add: closure_error_def)
  show ?thesis
  proof (intro conjI impI)
    assume "r \<in> set (normative_rules l) \<and> element (target r) \<notin> closed_over l ri"
    then show "closure_error r \<in> set (check_closure l ri)"
      using rule_error by (elim conjE)
  next
    assume "ri = Some m \<and> imp \<in> set (lang_imports l) \<and> m (target_name imp) = None"
    then show "''Unresolved import: '' @ target_name imp \<in> set (check_closure l ri)"
      using import_error by (elim conjE)
  next
    show "''Unresolved import: '' @ target_name imp \<noteq> closure_error r"
      by (rule distinct_errors)
  qed
qed

lemma transitively_resolved_haunted:
  "x \<in> transitively_resolved resolved_other haunted_lang \<Longrightarrow> x = other_lang"
  by (induction rule: transitively_resolved.induct)
     (auto simp: resolved_other_def haunted_lang_def other_lang_def split: if_splits)

theorem check_closure_reports_unknown_targets_witness:
  "check_closure haunted_lang (Some resolved_other) =
     [''Unresolved import: Missing'',
      ''Normative rule MUST(Entity(Ghost)) references unknown element: Entity(Ghost)'']
   \<and> closure_error must_ghost \<in> set (check_closure haunted_lang (Some resolved_other))
   \<and> ''Unresolved import: Missing'' \<in> set (check_closure haunted_lang (Some resolved_other))"
proof -
  have h1: "must_ghost \<in> set (normative_rules haunted_lang)"
    by (simp add: haunted_lang_def)
  have "element (target must_ghost) \<notin> vocab l'"
    if "l' \<in> transitively_resolved resolved_other haunted_lang" for l'
    using transitively_resolved_haunted [OF that]
    by (simp add: vocab_def other_lang_def must_ghost_def)
  then have h2: "element (target must_ghost) \<notin> closed_over haunted_lang (Some resolved_other)"
    by (auto simp: closed_over_def vocab_def haunted_lang_def must_ghost_def simple_domain_defs)
  have h3: "ImportDecl ''Missing'' \<in> set (lang_imports haunted_lang)"
    by (simp add: haunted_lang_def)
  have h4: "resolved_other (target_name (ImportDecl ''Missing'')) = None"
    by (simp add: resolved_other_def)
  have ev: "check_closure haunted_lang (Some resolved_other) =
     [''Unresolved import: Missing'',
      ''Normative rule MUST(Entity(Ghost)) references unknown element: Entity(Ghost)'']"
    by (simp add: check_closure_def haunted_lang_def must_ghost_def must_shared_def
          resolved_other_def other_lang_def simple_domain_defs vocab_def Let_def
          repr_NormativeRule_def repr_EntityType_def)
  from check_closure_reports_unknown_targets
    [of must_ghost haunted_lang "Some resolved_other" resolved_other "ImportDecl ''Missing''"]
    h1 h2 h3 h4 ev
  show ?thesis by simp
qed

section \<open>Topological order of the import graph\<close>

lemmas graph_defs =
  detect_import_cycles_def build_adj_def adj_get_def dfs_def dfs_from.simps
  topological_order_def init_in_degree_def kahn_loop.simps import_edge_def

lemma adj_get_fold:
  "adj_get
     (fold (\<lambda>edge adj.
        adj(edge_source edge \<mapsto>
          (case adj (edge_source edge) of None \<Rightarrow> [] | Some ts \<Rightarrow> ts) @ [edge_target edge]))
       es adj0) n =
   adj_get adj0 n @ map edge_target (filter (\<lambda>e. edge_source e = n) es)"
  by (induction es arbitrary: adj0) (auto simp: adj_get_def)

lemma adj_get_build_adj:
  "adj_get (build_adj es) n = map edge_target (filter (\<lambda>e. edge_source e = n) es)"
  by (simp add: build_adj_def adj_get_fold) (simp add: adj_get_def)

lemma in_degree_fold:
  assumes "\<forall>k v. d0 k = Some v \<longrightarrow> v = 0"
  shows "(\<forall>k v. fold (\<lambda>edge in_degree.
              (case in_degree (edge_target edge) of
                 None \<Rightarrow> in_degree(edge_target edge \<mapsto> 0)
               | Some v \<Rightarrow> in_degree)) es d0 k = Some v \<longrightarrow> v = 0)
       \<and> dom (fold (\<lambda>edge in_degree.
              (case in_degree (edge_target edge) of
                 None \<Rightarrow> in_degree(edge_target edge \<mapsto> 0)
               | Some v \<Rightarrow> in_degree)) es d0) = dom d0 \<union> edge_target ` set es"
  using assms
proof (induction es arbitrary: d0)
  case Nil
  then show ?case by simp
next
  case (Cons e es)
  let ?d1 = "case d0 (edge_target e) of None \<Rightarrow> d0(edge_target e \<mapsto> 0) | Some v \<Rightarrow> d0"
  have z: "\<forall>k v. ?d1 k = Some v \<longrightarrow> v = 0"
    using Cons.prems by (auto split: option.splits)
  have d: "dom ?d1 = insert (edge_target e) (dom d0)"
    by (auto split: option.splits)
  from Cons.IH [OF z] d show ?case by auto
qed

lemma init_in_degree_zero:
  "(\<forall>k v. init_in_degree g k = Some v \<longrightarrow> v = 0)
   \<and> dom (init_in_degree g) = fst ` set (languages g) \<union> edge_target ` set (edges g)"
proof -
  let ?d0 = "map_of (map (\<lambda>name. (name, 0::int)) (map fst (languages g)))"
  have z: "\<forall>k v. ?d0 k = Some v \<longrightarrow> v = 0"
    by (auto dest: map_of_SomeD)
  have "dom ?d0 = fst ` set (languages g)"
    by (simp add: dom_map_of_conv_image_fst image_image)
  with in_degree_fold [OF z, of "edges g"] show ?thesis
    by (simp add: init_in_degree_def)
qed

lemma relax_nonpositive:
  assumes "set nbrs \<subseteq> dom d"
    and "\<forall>k v. d k = Some v \<longrightarrow> v \<le> 0"
  shows "\<exists>d'. relax nbrs (d, q) = Inr (d', q) \<and> dom d' = dom d
            \<and> (\<forall>k v. d' k = Some v \<longrightarrow> v \<le> 0)"
  using assms
proof (induction nbrs arbitrary: d)
  case Nil
  then show ?case by simp
next
  case (Cons nb nbrs)
  from Cons.prems(1) obtain v where v: "d nb = Some v"
    by auto
  with Cons.prems(2) have neg: "v \<le> 0"
    by blast
  let ?d1 = "d(nb \<mapsto> v - 1)"
  have s: "set nbrs \<subseteq> dom ?d1"
    using Cons.prems(1) by auto
  have n: "\<forall>k u. ?d1 k = Some u \<longrightarrow> u \<le> 0"
    using Cons.prems(2) neg by auto
  have dm: "dom ?d1 = dom d"
    using v by auto
  from Cons.IH [OF s n] obtain d' where
    "relax nbrs (?d1, q) = Inr (d', q)" "dom d' = dom ?d1" "\<forall>k v. d' k = Some v \<longrightarrow> v \<le> 0"
    by blast
  with v neg dm show ?case by simp
qed

lemma kahn_loop_nonpositive:
  assumes "\<forall>n. set (adj_get adj n) \<subseteq> dom d"
    and "\<forall>k v. d k = Some v \<longrightarrow> v \<le> 0"
  shows "kahn_loop adj q d order = Some (Inr (order @ sort q))"
  using assms
proof (induction "length q" arbitrary: q d order)
  case 0
  then show ?case by (simp add: kahn_loop.simps)
next
  case (Suc n)
  then have ne: "q \<noteq> []"
    by auto
  then have "sort q \<noteq> []"
    by (metis length_sort length_0_conv)
  then obtain x xs where sq: "sort q = x # xs"
    by (cases "sort q") auto
  have len: "n = length xs"
    using Suc.hyps(2) sq by (metis length_sort length_Cons nat.inject)
  have "sorted (x # xs)"
    using sq by (metis sorted_sort)
  then have sxs: "sort xs = xs"
    by (simp add: sorted_sort_id)
  from Suc.prems(1) have "set (adj_get adj x) \<subseteq> dom d"
    by blast
  from relax_nonpositive [OF this Suc.prems(2), of xs] obtain d' where
    r: "relax (adj_get adj x) (d, xs) = Inr (d', xs)" and dm: "dom d' = dom d"
    and np: "\<forall>k v. d' k = Some v \<longrightarrow> v \<le> 0"
    by blast
  from Suc.prems(1) dm have a: "\<forall>n. set (adj_get adj n) \<subseteq> dom d'"
    by simp
  have "kahn_loop adj xs d' (order @ [x]) = Some (Inr ((order @ [x]) @ sort xs))"
    by (rule Suc.hyps(1) [OF len a np])
  with ne sq r sxs show ?case
    by (subst kahn_loop.simps) (simp add: Let_def)
qed

text \<open>
  Whenever the cycle detection finds no cycle, the Kahn loop ends and \<open>topological_order\<close>
  returns the language names in sorted order, whatever the edges are: no in-degree is
  ever above zero, so every name is in the first frontier.
\<close>

theorem topological_order_sorted_names:
  assumes "detect_import_cycles g = Some (Inr [])"
  shows "topological_order g = Some (Inr (Some (sort (map fst (languages g)))))"
proof -
  let ?d = "init_in_degree g"
  have z: "\<forall>k v. ?d k = Some v \<longrightarrow> v = 0"
    and dm: "dom ?d = fst ` set (languages g) \<union> edge_target ` set (edges g)"
    using init_in_degree_zero [of g] by blast+
  have a: "\<forall>n. set (adj_get (build_adj (edges g)) n) \<subseteq> dom ?d"
    by (auto simp: adj_get_build_adj dm)
  have np: "\<forall>k v. ?d k = Some v \<longrightarrow> v \<le> 0"
    using z by auto
  have q: "filter (\<lambda>n. (case ?d n of None \<Rightarrow> 0 | Some v \<Rightarrow> v) = 0) (map fst (languages g))
      = map fst (languages g)"
    using z by (auto simp: filter_id_conv split: option.splits)
  show ?thesis
    using assms
    by (simp add: topological_order_def Let_def q kahn_loop_nonpositive [OF a np])
qed

theorem topological_order_sorted_names_witness:
  "detect_import_cycles chain_graph = Some (Inr [])
   \<and> topological_order chain_graph = Some (Inr (Some [''A'', ''B'', ''C'']))"
proof -
  have h: "detect_import_cycles chain_graph = Some (Inr [])"
    by (simp add: chain_graph_def graph_defs)
  from topological_order_sorted_names [OF h] h show ?thesis
    by (simp add: chain_graph_def)
qed

text \<open>
  C4 (\<open>topological_order\<close> returns \<^verbatim>\<open>None\<close> exactly when the import graph has a cycle,
  and for an acyclic graph an ordering of all language names in which the source of every
  edge precedes its target) does not hold of the code. The graph with the languages \<open>A\<close>
  and \<open>B\<close> and the single edge from \<open>B\<close> to \<open>A\<close> has no cycle, and
  \<open>topological_order\<close> returns \<open>[A, B]\<close>: the target \<open>A\<close> of the edge precedes its source
  \<open>B\<close>. With both edges between \<open>A\<close> and \<open>B\<close> the cycle is found and the result is
  \<^verbatim>\<open>None\<close>.
\<close>

theorem topological_order_backward_edge:
  "detect_import_cycles backward_graph = Some (Inr [])
   \<and> edges backward_graph = [import_edge ''B'' ''A'']
   \<and> topological_order backward_graph = Some (Inr (Some [''A'', ''B'']))
   \<and> topological_order cyclic_graph = Some (Inr None)"
  by (simp add: backward_graph_def cyclic_graph_def graph_defs)


end
